theory Spec2Isabelle
  imports Main
begin

section \<open>RoomService of rpl-backend: rooms and room types over a soft-deleting store\<close>

text \<open>
  The development embeds \<^verbatim>\<open>src/room/room.service.ts\<close>. Every method of
  \<^verbatim>\<open>RoomService\<close> becomes a function that takes the stored tables and returns the
  outcome of the call together with the tables afterwards; a thrown exception is the
  \<open>Inl\<close> outcome. The logger calls have no effect on control flow or on the tables and
  are left out.
\<close>

subsection \<open>Values, errors and rows\<close>

type_synonym timestamp = int

text \<open>The object literals the methods return, with their keys in the order written.\<close>

datatype jsval =
    Str string
  | Num int
  | Date timestamp
  | Obj "(string \<times> jsval) list"

datatype error =
    HttpException string nat
  | ZodError
  | PrismaClientKnownRequestError string
  | PrismaClientValidationError
  | TypeError

record Room =
  id_room :: string
  id_roomtype :: string
  status :: string
  created_at :: timestamp
  updated_at :: timestamp
  deleted :: bool

record RoomType =
  id_roomtype :: string
  room_type :: string
  price :: int
  created_at :: timestamp
  updated_at :: timestamp
  deleted :: bool

text \<open>The two tables behind \<^verbatim>\<open>this.prisma.room\<close> and \<^verbatim>\<open>this.prisma.roomType\<close>.\<close>

record storage =
  rooms :: "Room list"
  roomTypes :: "RoomType list"

subsection \<open>Requests\<close>

text \<open>
  Modelled from the spec: the request classes of \<^verbatim>\<open>src/models/room.model\<close>, whose
  declarations are not among the sources. Section 4 names the required fields of the two
  create requests; section 3 has an update replace fields in full or in part, so in the
  update requests each field may be absent (\<open>None\<close>).
\<close>

record RoomCreateRequest =
  id_roomtype :: string
  status :: string

record RoomUpdateRequest =
  id_roomtype :: "string option"
  status :: "string option"

record RoomTypeCreateRequest =
  room_type :: string
  price :: int

record RoomTypeUpdateRequest =
  room_type :: "string option"
  price :: "int option"

text \<open>
  Modelled from the spec: the \<^verbatim>\<open>data\<close> argument of the \<^verbatim>\<open>update\<close> of the
  gateway, per table. The service passes an update request, or \<^verbatim>\<open>{ deleted: true }\<close>.
\<close>

record RoomUpdateInput =
  id_roomtype :: "string option"
  status :: "string option"
  deleted :: "bool option"

record RoomTypeUpdateInput =
  room_type :: "string option"
  price :: "int option"
  deleted :: "bool option"

subsection \<open>Validation\<close>

text \<open>
  \<^verbatim>\<open>ValidationService.validate(schema, request)\<close> returns the cleaned request or
  throws. The schemas of \<^verbatim>\<open>room.validation\<close> are parameters: a schema maps a raw
  request to the cleaned one, or to \<open>None\<close> where it rejects.
\<close>

definition validate :: "('raw \<Rightarrow> 'req option) \<Rightarrow> 'raw \<Rightarrow> error + 'req" where
  "validate schema request =
     (case schema request of None \<Rightarrow> Inl ZodError | Some r \<Rightarrow> Inr r)"

subsection \<open>The persistence gateway\<close>

text \<open>
  The persistence gateway, \<^verbatim>\<open>PrismaService\<close> with the database schema, is not among
  the sources. Section 6 of the specification gives the contract the service consumes:
  \<^verbatim>\<open>findUnique\<close>, \<^verbatim>\<open>findMany\<close>, \<^verbatim>\<open>count\<close>, \<^verbatim>\<open>create\<close> and
  \<^verbatim>\<open>update\<close> per table, each returning the stored row, or null or zero when there
  is none. Identifiers and timestamps are assigned by the gateway (section 3); the
  identifier it generates and its clock are the parameters \<open>new_id\<close> and \<open>now\<close>.
\<close>

text \<open>
  Modelled from the spec: the \<^verbatim>\<open>deleted\<close> entry of a \<^verbatim>\<open>where\<close> filter of the
  gateway, \<open>None\<close> when the call gives no such entry.
\<close>

definition deleted_matches :: "bool option \<Rightarrow> bool \<Rightarrow> bool" where
  "deleted_matches flt d = (case flt of None \<Rightarrow> True | Some b \<Rightarrow> d = b)"

text \<open>
  Modelled from the spec: \<^verbatim>\<open>prisma.room.findUnique\<close>, the row under the key that
  passes the filter, or null.
\<close>

definition room_findUnique :: "storage \<Rightarrow> string \<Rightarrow> bool option \<Rightarrow> Room option" where
  "room_findUnique db i flt =
     find (\<lambda>r. id_room r = i \<and> deleted_matches flt (Room.deleted r)) (rooms db)"

text \<open>Modelled from the spec: \<^verbatim>\<open>prisma.room.findMany\<close>, the rows that pass the filter.\<close>

definition room_findMany :: "storage \<Rightarrow> bool option \<Rightarrow> Room list" where
  "room_findMany db flt = filter (\<lambda>r. deleted_matches flt (Room.deleted r)) (rooms db)"

text \<open>
  Modelled from the spec: the join \<^verbatim>\<open>include: { roomType: true }\<close> of the gateway,
  the row of the room type the room refers to, whatever its \<^verbatim>\<open>deleted\<close> flag, or
  null when there is none.
\<close>

definition include_roomType :: "storage \<Rightarrow> Room \<Rightarrow> RoomType option" where
  "include_roomType db r =
     find (\<lambda>t. RoomType.id_roomtype t = Room.id_roomtype r) (roomTypes db)"

text \<open>
  Modelled from the spec: \<^verbatim>\<open>prisma.roomType.findUnique\<close>. The key is optional
  because \<^verbatim>\<open>update\<close> passes the \<^verbatim>\<open>id_roomtype\<close> of an update request; a
  \<^verbatim>\<open>findUnique\<close> whose unique key is \<^verbatim>\<open>undefined\<close> is refused by the gateway
  before it reaches the table.
\<close>

definition roomType_findUnique ::
  "storage \<Rightarrow> string option \<Rightarrow> bool option \<Rightarrow> error + RoomType option" where
  "roomType_findUnique db key flt =
     (case key of
        None \<Rightarrow> Inl PrismaClientValidationError
      | Some i \<Rightarrow>
          Inr (find (\<lambda>t. RoomType.id_roomtype t = i \<and> deleted_matches flt (RoomType.deleted t))
                 (roomTypes db)))"

text \<open>
  Modelled from the spec: \<^verbatim>\<open>prisma.roomType.findMany\<close>, the rows that pass the
  filter.
\<close>

definition roomType_findMany :: "storage \<Rightarrow> bool option \<Rightarrow> RoomType list" where
  "roomType_findMany db flt =
     filter (\<lambda>t. deleted_matches flt (RoomType.deleted t)) (roomTypes db)"

text \<open>
  Modelled from the spec: \<^verbatim>\<open>prisma.roomType.count\<close>, the number of rows under the
  key that pass the filter.
\<close>

definition roomType_count :: "storage \<Rightarrow> string \<Rightarrow> bool option \<Rightarrow> nat" where
  "roomType_count db i flt =
     length (filter (\<lambda>t. RoomType.id_roomtype t = i \<and> deleted_matches flt (RoomType.deleted t))
               (roomTypes db))"

text \<open>
  Modelled from the spec: \<^verbatim>\<open>prisma.room.create\<close>. It stores a new row with the
  generated identifier, both timestamps set to the time of the call and \<^verbatim>\<open>deleted\<close>
  at its default; an identifier already in the table violates the primary key
  (\<^verbatim>\<open>P2002\<close>).
\<close>

definition room_create ::
  "string \<Rightarrow> timestamp \<Rightarrow> storage \<Rightarrow> string \<Rightarrow> string \<Rightarrow> (error + Room) \<times> storage" where
  "room_create new_id now db rt st =
     (if list_ex (\<lambda>r. id_room r = new_id) (rooms db)
      then (Inl (PrismaClientKnownRequestError ''P2002''), db)
      else
        (let row = \<lparr>id_room = new_id, Room.id_roomtype = rt, Room.status = st,
                    Room.created_at = now, Room.updated_at = now, Room.deleted = False\<rparr>
         in (Inr row, db\<lparr>rooms := rooms db @ [row]\<rparr>)))"

text \<open>Modelled from the spec: \<^verbatim>\<open>prisma.roomType.create\<close>, as for rooms.\<close>

definition roomType_create ::
  "string \<Rightarrow> timestamp \<Rightarrow> storage \<Rightarrow> RoomTypeCreateRequest \<Rightarrow> (error + RoomType) \<times> storage"
  where
  "roomType_create new_id now db data =
     (if list_ex (\<lambda>t. RoomType.id_roomtype t = new_id) (roomTypes db)
      then (Inl (PrismaClientKnownRequestError ''P2002''), db)
      else
        (let row = \<lparr>RoomType.id_roomtype = new_id,
                    RoomType.room_type = RoomTypeCreateRequest.room_type data,
                    RoomType.price = RoomTypeCreateRequest.price data,
                    RoomType.created_at = now, RoomType.updated_at = now,
                    RoomType.deleted = False\<rparr>
         in (Inr row, db\<lparr>roomTypes := roomTypes db @ [row]\<rparr>)))"

text \<open>A field of \<^verbatim>\<open>data\<close> that is absent leaves the stored value.\<close>

definition or_else :: "'a option \<Rightarrow> 'a \<Rightarrow> 'a" where
  "or_else v d = (case v of None \<Rightarrow> d | Some x \<Rightarrow> x)"

text \<open>
  Modelled from the spec: what \<^verbatim>\<open>prisma.room.update\<close> does to a row. It replaces
  the fields present in \<^verbatim>\<open>data\<close> and refreshes \<^verbatim>\<open>updated_at\<close>.
\<close>

definition room_apply :: "RoomUpdateInput \<Rightarrow> timestamp \<Rightarrow> Room \<Rightarrow> Room" where
  "room_apply data now r =
     r\<lparr>Room.id_roomtype := or_else (RoomUpdateInput.id_roomtype data) (Room.id_roomtype r),
       Room.status := or_else (RoomUpdateInput.status data) (Room.status r),
       Room.deleted := or_else (RoomUpdateInput.deleted data) (Room.deleted r),
       Room.updated_at := now\<rparr>"

text \<open>
  Modelled from the spec: \<^verbatim>\<open>prisma.room.update\<close>. It writes to the row under the
  key and returns it; with no row under the key it throws (\<^verbatim>\<open>P2025\<close>).
\<close>

definition room_update ::
  "timestamp \<Rightarrow> storage \<Rightarrow> string \<Rightarrow> RoomUpdateInput \<Rightarrow> (error + Room) \<times> storage" where
  "room_update now db i data =
     (case find (\<lambda>r. id_room r = i) (rooms db) of
        None \<Rightarrow> (Inl (PrismaClientKnownRequestError ''P2025''), db)
      | Some old \<Rightarrow>
          (Inr (room_apply data now old),
           db\<lparr>rooms := map (\<lambda>r. if id_room r = i then room_apply data now r else r) (rooms db)\<rparr>))"

text \<open>Modelled from the spec: what \<^verbatim>\<open>prisma.roomType.update\<close> does to a row.\<close>

definition roomType_apply :: "RoomTypeUpdateInput \<Rightarrow> timestamp \<Rightarrow> RoomType \<Rightarrow> RoomType" where
  "roomType_apply data now t =
     t\<lparr>RoomType.room_type := or_else (RoomTypeUpdateInput.room_type data) (RoomType.room_type t),
       RoomType.price := or_else (RoomTypeUpdateInput.price data) (RoomType.price t),
       RoomType.deleted := or_else (RoomTypeUpdateInput.deleted data) (RoomType.deleted t),
       RoomType.updated_at := now\<rparr>"

text \<open>Modelled from the spec: \<^verbatim>\<open>prisma.roomType.update\<close>, as for rooms.\<close>

definition roomType_update ::
  "timestamp \<Rightarrow> storage \<Rightarrow> string \<Rightarrow> RoomTypeUpdateInput \<Rightarrow> (error + RoomType) \<times> storage"
  where
  "roomType_update now db i data =
     (case find (\<lambda>t. RoomType.id_roomtype t = i) (roomTypes db) of
        None \<Rightarrow> (Inl (PrismaClientKnownRequestError ''P2025''), db)
      | Some old \<Rightarrow>
          (Inr (roomType_apply data now old),
           db\<lparr>roomTypes :=
                map (\<lambda>t. if RoomType.id_roomtype t = i then roomType_apply data now t else t)
                  (roomTypes db)\<rparr>))"

subsection \<open>Response shapes\<close>

text \<open>
  The object literals of the service. \<^verbatim>\<open>create\<close> and \<^verbatim>\<open>update\<close> return the
  same flat literal; \<^verbatim>\<open>findAll\<close> and \<^verbatim>\<open>findOne\<close> the same nested one; the four
  room-type methods that return an entity the same room-type literal.
\<close>

definition RoomCreateResponse :: "Room \<Rightarrow> jsval" where
  "RoomCreateResponse r =
     Obj [(''id_room'', Str (id_room r)),
          (''id_roomtype'', Str (Room.id_roomtype r)),
          (''status'', Str (Room.status r)),
          (''created_at'', Date (Room.created_at r)),
          (''updated_at'', Date (Room.updated_at r))]"

definition RoomDetailResponse :: "Room \<Rightarrow> RoomType \<Rightarrow> jsval" where
  "RoomDetailResponse r t =
     Obj [(''id_room'', Str (id_room r)),
          (''id_roomtype'', Str (Room.id_roomtype r)),
          (''status'', Str (Room.status r)),
          (''created_at'', Date (Room.created_at r)),
          (''updated_at'', Date (Room.updated_at r)),
          (''roomtype'',
             Obj [(''id_roomtype'', Str (RoomType.id_roomtype t)),
                  (''price'', Num (RoomType.price t)),
                  (''created_at'', Date (RoomType.created_at t)),
                  (''updated_at'', Date (RoomType.updated_at t))])]"

definition RoomTypeResponse :: "RoomType \<Rightarrow> jsval" where
  "RoomTypeResponse t =
     Obj [(''id_roomtype'', Str (RoomType.id_roomtype t)),
          (''room_type'', Str (RoomType.room_type t)),
          (''price'', Num (RoomType.price t)),
          (''created_at'', Date (RoomType.created_at t)),
          (''updated_at'', Date (RoomType.updated_at t))]"

definition DeleteResponse :: jsval where
  "DeleteResponse = Obj [(''message'', Str ''Deleted successfully'')]"

text \<open>Reading a response: a field by its key, the keys of an object, and every key at any depth.\<close>

fun field :: "string \<Rightarrow> jsval \<Rightarrow> jsval option" where
  "field k (Obj kvs) = map_of kvs k"
| "field k _ = None"

fun keys :: "jsval \<Rightarrow> string list" where
  "keys (Obj kvs) = map fst kvs"
| "keys _ = []"

fun all_keys :: "jsval \<Rightarrow> string list" where
  "all_keys (Obj kvs) = concat (map (\<lambda>(k, v). k # all_keys v) kvs)"
| "all_keys _ = []"

subsection \<open>Room methods\<close>

text \<open>
  The join of \<^verbatim>\<open>include: { roomType: true }\<close> followed by the literal that reads
  \<^verbatim>\<open>room.roomType.price\<close>: a null \<^verbatim>\<open>roomType\<close> makes that read throw.
\<close>

definition detail :: "storage \<Rightarrow> Room \<Rightarrow> error + jsval" where
  "detail db r =
     (case include_roomType db r of
        None \<Rightarrow> Inl TypeError
      | Some t \<Rightarrow> Inr (RoomDetailResponse r t))"

text \<open>\<^verbatim>\<open>Array.prototype.map\<close> with a callback that may throw: the first throw ends it.\<close>

fun map_throw :: "('a \<Rightarrow> error + 'b) \<Rightarrow> 'a list \<Rightarrow> error + 'b list" where
  "map_throw f [] = Inr []"
| "map_throw f (x # xs) =
     (case f x of
        Inl e \<Rightarrow> Inl e
      | Inr y \<Rightarrow> (case map_throw f xs of Inl e \<Rightarrow> Inl e | Inr ys \<Rightarrow> Inr (y # ys)))"

text \<open>
  \<^verbatim>\<open>create\<close> (lines 26 to 55): validate, look the room type up by its identifier
  alone, store the room, return the flat literal.
\<close>

definition create ::
  "('raw \<Rightarrow> RoomCreateRequest option) \<Rightarrow> string \<Rightarrow> timestamp \<Rightarrow> storage \<Rightarrow> 'raw
     \<Rightarrow> (error + jsval) \<times> storage" where
  "create CREATE new_id now db request =
     (case validate CREATE request of
        Inl e \<Rightarrow> (Inl e, db)
      | Inr roomRequest \<Rightarrow>
          (case roomType_findUnique db (Some (RoomCreateRequest.id_roomtype roomRequest)) None of
             Inl e \<Rightarrow> (Inl e, db)
           | Inr None \<Rightarrow> (Inl (HttpException ''Room Type does not exist'' 404), db)
           | Inr (Some roomType) \<Rightarrow>
               (case room_create new_id now db
                       (RoomCreateRequest.id_roomtype roomRequest)
                       (RoomCreateRequest.status roomRequest) of
                  (Inl e, db') \<Rightarrow> (Inl e, db')
                | (Inr room, db') \<Rightarrow> (Inr (RoomCreateResponse room), db'))))"

text \<open>\<^verbatim>\<open>findAll\<close> (lines 57 to 76): the live rooms, each with its room type joined.\<close>

definition findAll :: "storage \<Rightarrow> (error + jsval list) \<times> storage" where
  "findAll db = (map_throw (detail db) (room_findMany db (Some False)), db)"

text \<open>\<^verbatim>\<open>findOne\<close> (lines 78 to 100): the live room under the identifier, or the 404.\<close>

definition findOne :: "storage \<Rightarrow> string \<Rightarrow> (error + jsval) \<times> storage" where
  "findOne db i =
     (case room_findUnique db i (Some False) of
        None \<Rightarrow> (Inl (HttpException ''Room not found'' 404), db)
      | Some room \<Rightarrow> (detail db room, db))"

text \<open>
  \<^verbatim>\<open>update\<close> (lines 102 to 140): validate, check the room type as \<^verbatim>\<open>create\<close>
  does, then check that the room is live, then write the request.
\<close>

definition update ::
  "('raw \<Rightarrow> RoomUpdateRequest option) \<Rightarrow> timestamp \<Rightarrow> storage \<Rightarrow> string \<Rightarrow> 'raw
     \<Rightarrow> (error + jsval) \<times> storage" where
  "update UPDATE now db i request =
     (case validate UPDATE request of
        Inl e \<Rightarrow> (Inl e, db)
      | Inr roomRequest \<Rightarrow>
          (case roomType_findUnique db (RoomUpdateRequest.id_roomtype roomRequest) None of
             Inl e \<Rightarrow> (Inl e, db)
           | Inr None \<Rightarrow> (Inl (HttpException ''Room Type does not exist'' 404), db)
           | Inr (Some roomType) \<Rightarrow>
               (case room_findUnique db i (Some False) of
                  None \<Rightarrow> (Inl (HttpException ''Room not found'' 404), db)
                | Some existingRoom \<Rightarrow>
                    (case room_update now db i
                            \<lparr>RoomUpdateInput.id_roomtype = RoomUpdateRequest.id_roomtype roomRequest,
                             RoomUpdateInput.status = RoomUpdateRequest.status roomRequest,
                             RoomUpdateInput.deleted = None\<rparr> of
                       (Inl e, db') \<Rightarrow> (Inl e, db')
                     | (Inr room, db') \<Rightarrow> (Inr (RoomCreateResponse room), db')))))"

text \<open>
  \<^verbatim>\<open>delete\<close> (lines 142 to 159): check that the room is live, then write
  \<^verbatim>\<open>{ deleted: true }\<close>.
\<close>

definition delete :: "timestamp \<Rightarrow> storage \<Rightarrow> string \<Rightarrow> (error + jsval) \<times> storage" where
  "delete now db i =
     (case room_findUnique db i (Some False) of
        None \<Rightarrow> (Inl (HttpException ''Room not found'' 404), db)
      | Some room \<Rightarrow>
          (case room_update now db i
                  \<lparr>RoomUpdateInput.id_roomtype = None, RoomUpdateInput.status = None,
                   RoomUpdateInput.deleted = Some True\<rparr> of
             (Inl e, db') \<Rightarrow> (Inl e, db')
           | (Inr _, db') \<Rightarrow> (Inr DeleteResponse, db')))"

subsection \<open>Room-type methods\<close>

text \<open>\<^verbatim>\<open>createRoomType\<close> (lines 163 to 183): validate and store the request.\<close>

definition createRoomType ::
  "('raw \<Rightarrow> RoomTypeCreateRequest option) \<Rightarrow> string \<Rightarrow> timestamp \<Rightarrow> storage \<Rightarrow> 'raw
     \<Rightarrow> (error + jsval) \<times> storage" where
  "createRoomType CREATE new_id now db request =
     (case validate CREATE request of
        Inl e \<Rightarrow> (Inl e, db)
      | Inr roomRequest \<Rightarrow>
          (case roomType_create new_id now db roomRequest of
             (Inl e, db') \<Rightarrow> (Inl e, db')
           | (Inr roomType, db') \<Rightarrow> (Inr (RoomTypeResponse roomType), db')))"

text \<open>\<^verbatim>\<open>findAllRoomType\<close> (lines 185 to 197): the live room types.\<close>

definition findAllRoomType :: "storage \<Rightarrow> (error + jsval list) \<times> storage" where
  "findAllRoomType db = (Inr (map RoomTypeResponse (roomType_findMany db (Some False))), db)"

text \<open>
  \<^verbatim>\<open>findOneRoomType\<close> (lines 199 to 214): the live room type under the identifier,
  or the 404.
\<close>

definition findOneRoomType :: "storage \<Rightarrow> string \<Rightarrow> (error + jsval) \<times> storage" where
  "findOneRoomType db i =
     (case roomType_findUnique db (Some i) (Some False) of
        Inl e \<Rightarrow> (Inl e, db)
      | Inr None \<Rightarrow> (Inl (HttpException ''Room Type not found'' 404), db)
      | Inr (Some roomType) \<Rightarrow> (Inr (RoomTypeResponse roomType), db))"

text \<open>
  \<^verbatim>\<open>updateRoomType\<close> (lines 216 to 245): validate, count the live rows under the
  identifier, then write the request.
\<close>

definition updateRoomType ::
  "('raw \<Rightarrow> RoomTypeUpdateRequest option) \<Rightarrow> timestamp \<Rightarrow> storage \<Rightarrow> string \<Rightarrow> 'raw
     \<Rightarrow> (error + jsval) \<times> storage" where
  "updateRoomType UPDATE now db i request =
     (case validate UPDATE request of
        Inl e \<Rightarrow> (Inl e, db)
      | Inr roomRequest \<Rightarrow>
          (let existingRoomType = roomType_count db i (Some False) in
           if existingRoomType = 0
           then (Inl (HttpException ''Room Type not found'' 404), db)
           else
             (case roomType_update now db i
                     \<lparr>RoomTypeUpdateInput.room_type = RoomTypeUpdateRequest.room_type roomRequest,
                      RoomTypeUpdateInput.price = RoomTypeUpdateRequest.price roomRequest,
                      RoomTypeUpdateInput.deleted = None\<rparr> of
                (Inl e, db') \<Rightarrow> (Inl e, db')
              | (Inr roomType, db') \<Rightarrow> (Inr (RoomTypeResponse roomType), db'))))"

text \<open>
  \<^verbatim>\<open>deleteRoomType\<close> (lines 248 to 264): check that the room type is live, then
  write \<^verbatim>\<open>{ deleted: true }\<close>; the room table is not read.
\<close>

definition deleteRoomType :: "timestamp \<Rightarrow> storage \<Rightarrow> string \<Rightarrow> (error + jsval) \<times> storage" where
  "deleteRoomType now db i =
     (case roomType_findUnique db (Some i) (Some False) of
        Inl e \<Rightarrow> (Inl e, db)
      | Inr None \<Rightarrow> (Inl (HttpException ''Room Type not found'' 404), db)
      | Inr (Some roomType) \<Rightarrow>
          (case roomType_update now db i
                  \<lparr>RoomTypeUpdateInput.room_type = None, RoomTypeUpdateInput.price = None,
                   RoomTypeUpdateInput.deleted = Some True\<rparr> of
             (Inl e, db') \<Rightarrow> (Inl e, db')
           | (Inr _, db') \<Rightarrow> (Inr DeleteResponse, db')))"

subsection \<open>Conditions on the stored tables\<close>

text \<open>No live row under an identifier: the identifier is absent, or its rows are deleted.\<close>

definition room_missing :: "storage \<Rightarrow> string \<Rightarrow> bool" where
  "room_missing db i = list_all (\<lambda>r. id_room r = i \<longrightarrow> Room.deleted r) (rooms db)"

definition roomType_missing :: "storage \<Rightarrow> string \<Rightarrow> bool" where
  "roomType_missing db i =
     list_all (\<lambda>t. RoomType.id_roomtype t = i \<longrightarrow> RoomType.deleted t) (roomTypes db)"

text \<open>A soft-deleted row under an identifier of the room-type table.\<close>

definition roomType_soft_deleted :: "storage \<Rightarrow> string \<Rightarrow> bool" where
  "roomType_soft_deleted db i =
     list_ex (\<lambda>t. RoomType.id_roomtype t = i \<and> RoomType.deleted t) (roomTypes db)"

text \<open>The identifier the gateway generates for a new room is not yet in the table.\<close>

definition fresh_room_id :: "storage \<Rightarrow> string \<Rightarrow> bool" where
  "fresh_room_id db i = list_all (\<lambda>r. id_room r \<noteq> i) (rooms db)"

definition fresh_roomType_id :: "storage \<Rightarrow> string \<Rightarrow> bool" where
  "fresh_roomType_id db i = list_all (\<lambda>t. RoomType.id_roomtype t \<noteq> i) (roomTypes db)"

text \<open>The primary keys: no two rows of a table share their identifier.\<close>

definition primary_keys :: "storage \<Rightarrow> bool" where
  "primary_keys db \<longleftrightarrow>
     distinct (map id_room (rooms db)) \<and> distinct (map RoomType.id_roomtype (roomTypes db))"

text \<open>Every room refers to a row of the room-type table.\<close>

definition references_resolve :: "storage \<Rightarrow> bool" where
  "references_resolve db \<longleftrightarrow>
     list_all (\<lambda>r. list_ex (\<lambda>t. RoomType.id_roomtype t = Room.id_roomtype r) (roomTypes db))
       (rooms db)"

text \<open>
  A store used in the examples: a soft-deleted and a live room type, two live rooms and a
  soft-deleted one.
\<close>

definition example_db :: storage where
  "example_db =
     \<lparr>rooms =
        [\<lparr>id_room = ''r1'', Room.id_roomtype = ''t1'', Room.status = ''available'',
          Room.created_at = 10, Room.updated_at = 10, Room.deleted = False\<rparr>,
         \<lparr>id_room = ''r2'', Room.id_roomtype = ''t2'', Room.status = ''booked'',
          Room.created_at = 11, Room.updated_at = 12, Room.deleted = True\<rparr>,
         \<lparr>id_room = ''r3'', Room.id_roomtype = ''t2'', Room.status = ''available'',
          Room.created_at = 13, Room.updated_at = 13, Room.deleted = False\<rparr>],
      roomTypes =
        [\<lparr>RoomType.id_roomtype = ''t1'', RoomType.room_type = ''Deluxe'', RoomType.price = 100,
          RoomType.created_at = 1, RoomType.updated_at = 5, RoomType.deleted = True\<rparr>,
         \<lparr>RoomType.id_roomtype = ''t2'', RoomType.room_type = ''Suite'', RoomType.price = 250,
          RoomType.created_at = 2, RoomType.updated_at = 2, RoomType.deleted = False\<rparr>]\<rparr>"



section \<open>Properties\<close>

subsection \<open>Lookups that find no live row\<close>

lemma room_findUnique_missing:
  "room_missing db i \<Longrightarrow> room_findUnique db i (Some False) = None"
  by (auto simp: room_missing_def room_findUnique_def deleted_matches_def find_None_iff list_all_iff)

lemma roomType_find_missing:
  "roomType_missing db i \<Longrightarrow>
     find (\<lambda>t. RoomType.id_roomtype t = i \<and> deleted_matches (Some False) (RoomType.deleted t))
       (roomTypes db) = None"
  by (auto simp: roomType_missing_def deleted_matches_def find_None_iff list_all_iff)



lemma delete_missing:
  "room_missing db i \<Longrightarrow> delete now db i = (Inl (HttpException ''Room not found'' 404), db)"
  by (simp add: delete_def room_findUnique_missing)



lemma findOneRoomType_missing:
  "roomType_missing db i \<Longrightarrow>
     findOneRoomType db i = (Inl (HttpException ''Room Type not found'' 404), db)"
  by (simp add: findOneRoomType_def roomType_findUnique_def roomType_find_missing)

lemma deleteRoomType_missing:
  "roomType_missing db i \<Longrightarrow>
     deleteRoomType now db i = (Inl (HttpException ''Room Type not found'' 404), db)"
  by (simp add: deleteRoomType_def roomType_findUnique_def roomType_find_missing)







subsection \<open>The existence check on the referenced room type\<close>

lemma find_list_ex:
  "list_ex P xs \<Longrightarrow> \<exists>x. find P xs = Some x \<and> P x \<and> x \<in> set xs"
  by (induction xs) auto

lemma roomType_findUnique_fresh:
  "fresh_roomType_id db k \<Longrightarrow> roomType_findUnique db (Some k) None = Inr None"
  by (auto simp: roomType_findUnique_def fresh_roomType_id_def find_None_iff list_all_iff)

lemma room_findUnique_live:
  "\<not> room_missing db i \<Longrightarrow>
     \<exists>r. room_findUnique db i (Some False) = Some r \<and> id_room r = i \<and> \<not> Room.deleted r
          \<and> r \<in> set (rooms db)"
proof -
  assume "\<not> room_missing db i"
  then have "list_ex (\<lambda>r. id_room r = i \<and> deleted_matches (Some False) (Room.deleted r)) (rooms db)"
    by (auto simp: room_missing_def deleted_matches_def list_ex_iff list_all_iff)
  from find_list_ex [OF this] show ?thesis
    by (auto simp: room_findUnique_def deleted_matches_def)
qed

lemma room_update_present:
  assumes "r \<in> set (rooms db)" "id_room r = i"
  shows "\<exists>old. old \<in> set (rooms db) \<and> id_room old = i
           \<and> room_update now db i data
             = (Inr (room_apply data now old),
                db\<lparr>rooms := map (\<lambda>r. if id_room r = i then room_apply data now r else r) (rooms db)\<rparr>)"
proof -
  from assms have "list_ex (\<lambda>r. id_room r = i) (rooms db)"
    by (auto simp: list_ex_iff)
  from find_list_ex [OF this] show ?thesis
    by (auto simp: room_update_def)
qed

lemma create_absent_roomType:
  "CREATE request = Some req \<Longrightarrow> fresh_roomType_id db (RoomCreateRequest.id_roomtype req) \<Longrightarrow>
     create CREATE new_id now db request
       = (Inl (HttpException ''Room Type does not exist'' 404), db)"
  by (simp add: create_def validate_def roomType_findUnique_fresh)

lemma update_absent_roomType:
  "UPDATE request = Some req \<Longrightarrow> RoomUpdateRequest.id_roomtype req = Some k \<Longrightarrow>
   fresh_roomType_id db k \<Longrightarrow>
     update UPDATE now db i request
       = (Inl (HttpException ''Room Type does not exist'' 404), db)"
  by (simp add: update_def validate_def roomType_findUnique_fresh)

text \<open>
  C4. A room create or update whose validated \<^verbatim>\<open>id_roomtype\<close> matches no row of the
  room-type table fails with \<^verbatim>\<open>HttpException('Room Type does not exist', 404)\<close>, and
  the tables are as before: no room is created or changed.
\<close>

theorem unknown_roomType_rejected:
  "(CREATE request = Some req \<and> fresh_roomType_id db (RoomCreateRequest.id_roomtype req) \<longrightarrow>
      create CREATE new_id now db request
        = (Inl (HttpException ''Room Type does not exist'' 404), db))
   \<and> (UPDATE request' = Some req' \<and> RoomUpdateRequest.id_roomtype req' = Some k
        \<and> fresh_roomType_id db k \<longrightarrow>
      update UPDATE now db i request'
        = (Inl (HttpException ''Room Type does not exist'' 404), db))"
  using create_absent_roomType [of CREATE request req db new_id now]
    update_absent_roomType [of UPDATE request' req' k db now i]
  by blast

theorem unknown_roomType_rejected_witness:
  "fresh_roomType_id example_db ''t9''
   \<and> create Some ''r4'' 20 example_db
        \<lparr>RoomCreateRequest.id_roomtype = ''t9'', RoomCreateRequest.status = ''available''\<rparr>
      = (Inl (HttpException ''Room Type does not exist'' 404), example_db)
   \<and> update Some 20 example_db ''r1''
        \<lparr>RoomUpdateRequest.id_roomtype = Some ''t9'', RoomUpdateRequest.status = None\<rparr>
      = (Inl (HttpException ''Room Type does not exist'' 404), example_db)"
proof -
  have f: "fresh_roomType_id example_db ''t9''"
    by (simp add: fresh_roomType_id_def example_db_def)
  show ?thesis
    using f
      unknown_roomType_rejected [where db = example_db and k = "''t9''" and i = "''r1''"
        and now = 20 and new_id = "''r4''" and CREATE = Some and UPDATE = Some
        and request = "\<lparr>RoomCreateRequest.id_roomtype = ''t9'',
                        RoomCreateRequest.status = ''available''\<rparr>"
        and req = "\<lparr>RoomCreateRequest.id_roomtype = ''t9'',
                        RoomCreateRequest.status = ''available''\<rparr>"
        and request' = "\<lparr>RoomUpdateRequest.id_roomtype = Some ''t9'',
                         RoomUpdateRequest.status = None\<rparr>"
        and req' = "\<lparr>RoomUpdateRequest.id_roomtype = Some ''t9'',
                         RoomUpdateRequest.status = None\<rparr>"]
    by simp
qed

lemma roomType_findUnique_present:
  "\<not> fresh_roomType_id db k \<Longrightarrow> \<exists>t. roomType_findUnique db (Some k) None = Inr (Some t)"
proof -
  assume "\<not> fresh_roomType_id db k"
  then have "list_ex (\<lambda>t. RoomType.id_roomtype t = k \<and> deleted_matches None (RoomType.deleted t))
               (roomTypes db)"
    by (auto simp: fresh_roomType_id_def deleted_matches_def list_ex_iff list_all_iff)
  from find_list_ex [OF this] show ?thesis
    by (auto simp: roomType_findUnique_def)
qed

lemma soft_deleted_not_fresh:
  "roomType_soft_deleted db k \<Longrightarrow> \<not> fresh_roomType_id db k"
  by (auto simp: roomType_soft_deleted_def fresh_roomType_id_def list_ex_iff list_all_iff)

lemma create_succeeds:
  assumes "CREATE request = Some req"
    and "\<not> fresh_roomType_id db (RoomCreateRequest.id_roomtype req)"
    and "fresh_room_id db new_id"
  shows "create CREATE new_id now db request
          = (Inr (RoomCreateResponse
                   \<lparr>id_room = new_id, Room.id_roomtype = RoomCreateRequest.id_roomtype req,
                    Room.status = RoomCreateRequest.status req, Room.created_at = now,
                    Room.updated_at = now, Room.deleted = False\<rparr>),
             db\<lparr>rooms := rooms db @
                  [\<lparr>id_room = new_id, Room.id_roomtype = RoomCreateRequest.id_roomtype req,
                    Room.status = RoomCreateRequest.status req, Room.created_at = now,
                    Room.updated_at = now, Room.deleted = False\<rparr>]\<rparr>)"
proof -
  from roomType_findUnique_present [OF assms(2)] obtain t where
    t: "roomType_findUnique db (Some (RoomCreateRequest.id_roomtype req)) None = Inr (Some t)"
    by blast
  from assms(3) have "\<not> list_ex (\<lambda>r. id_room r = new_id) (rooms db)"
    by (auto simp: fresh_room_id_def list_ex_iff list_all_iff)
  with assms(1) t show ?thesis
    by (simp add: create_def validate_def room_create_def Let_def)
qed

lemma update_soft_deleted_roomType:
  assumes "UPDATE request = Some req"
    and "RoomUpdateRequest.id_roomtype req = Some k"
    and "roomType_soft_deleted db k"
    and "\<not> room_missing db i"
  shows "\<exists>room db'. update UPDATE now db i request = (Inr (RoomCreateResponse room), db')
          \<and> room \<in> set (rooms db')
          \<and> id_room room = i
          \<and> Room.id_roomtype room = k
          \<and> roomTypes db' = roomTypes db"
proof -
  from roomType_findUnique_present [OF soft_deleted_not_fresh [OF assms(3)]] obtain t where
    t: "roomType_findUnique db (Some k) None = Inr (Some t)"
    by blast
  from room_findUnique_live [OF assms(4)] obtain r where
    r: "room_findUnique db i (Some False) = Some r" "id_room r = i" "r \<in> set (rooms db)"
    by blast
  let ?data = "\<lparr>RoomUpdateInput.id_roomtype = RoomUpdateRequest.id_roomtype req,
                RoomUpdateInput.status = RoomUpdateRequest.status req,
                RoomUpdateInput.deleted = None\<rparr>"
  from room_update_present [OF r(3) r(2), of now ?data] obtain old where
    old: "old \<in> set (rooms db)" "id_room old = i"
      "room_update now db i ?data
        = (Inr (room_apply ?data now old),
           db\<lparr>rooms := map (\<lambda>r. if id_room r = i then room_apply ?data now r else r) (rooms db)\<rparr>)"
    by blast
  have "update UPDATE now db i request
        = (Inr (RoomCreateResponse (room_apply ?data now old)),
           db\<lparr>rooms := map (\<lambda>r. if id_room r = i then room_apply ?data now r else r) (rooms db)\<rparr>)"
    using assms(1,2) t r(1) old(3) by (simp add: update_def validate_def)
  moreover have "room_apply ?data now old
        \<in> set (map (\<lambda>r. if id_room r = i then room_apply ?data now r else r) (rooms db))"
    using old(1,2) by (auto simp: image_iff intro!: bexI [of _ old])
  moreover have "id_room (room_apply ?data now old) = i"
    using old(2) by (simp add: room_apply_def)
  moreover have "Room.id_roomtype (room_apply ?data now old) = k"
    using assms(2) by (simp add: room_apply_def or_else_def)
  ultimately show ?thesis by auto
qed


text \<open>
  C2. The check that the referenced room type exists, in \<^verbatim>\<open>create\<close> and
  \<^verbatim>\<open>update\<close>, looks the room type up by its identifier alone. When the validated
  \<^verbatim>\<open>id_roomtype\<close> is that of a soft-deleted room type, the create succeeds and stores
  a room referring to it, and the update of a live room succeeds and leaves that room
  referring to it.
\<close>

theorem soft_deleted_roomType_accepted:
  "(CREATE request = Some req \<and> roomType_soft_deleted db (RoomCreateRequest.id_roomtype req)
      \<and> fresh_room_id db new_id \<longrightarrow>
      (\<exists>room db'. create CREATE new_id now db request = (Inr (RoomCreateResponse room), db')
         \<and> rooms db' = rooms db @ [room]
         \<and> Room.id_roomtype room = RoomCreateRequest.id_roomtype req
         \<and> \<not> Room.deleted room))
   \<and> (UPDATE request' = Some req' \<and> RoomUpdateRequest.id_roomtype req' = Some k
        \<and> roomType_soft_deleted db k \<and> \<not> room_missing db i \<longrightarrow>
      (\<exists>room db'. update UPDATE now db i request' = (Inr (RoomCreateResponse room), db')
         \<and> room \<in> set (rooms db')
         \<and> id_room room = i
         \<and> Room.id_roomtype room = k))"
proof (intro conjI impI)
  assume a: "CREATE request = Some req
      \<and> roomType_soft_deleted db (RoomCreateRequest.id_roomtype req) \<and> fresh_room_id db new_id"
  let ?row = "\<lparr>id_room = new_id, Room.id_roomtype = RoomCreateRequest.id_roomtype req,
               Room.status = RoomCreateRequest.status req, Room.created_at = now,
               Room.updated_at = now, Room.deleted = False\<rparr>"
  from a have "create CREATE new_id now db request
      = (Inr (RoomCreateResponse ?row), db\<lparr>rooms := rooms db @ [?row]\<rparr>)"
    by (intro create_succeeds soft_deleted_not_fresh) simp_all
  then show "\<exists>room db'. create CREATE new_id now db request = (Inr (RoomCreateResponse room), db')
         \<and> rooms db' = rooms db @ [room]
         \<and> Room.id_roomtype room = RoomCreateRequest.id_roomtype req
         \<and> \<not> Room.deleted room"
    by (intro exI [of _ ?row] exI [of _ "db\<lparr>rooms := rooms db @ [?row]\<rparr>"]) simp
next
  assume a: "UPDATE request' = Some req' \<and> RoomUpdateRequest.id_roomtype req' = Some k
        \<and> roomType_soft_deleted db k \<and> \<not> room_missing db i"
  then show "\<exists>room db'. update UPDATE now db i request' = (Inr (RoomCreateResponse room), db')
         \<and> room \<in> set (rooms db')
         \<and> id_room room = i
         \<and> Room.id_roomtype room = k"
    using update_soft_deleted_roomType [of UPDATE request' req' k db i now] by blast
qed


theorem soft_deleted_roomType_accepted_witness:
  "roomType_soft_deleted example_db ''t1'' \<and> fresh_room_id example_db ''r4''
   \<and> \<not> room_missing example_db ''r3''
   \<and> (\<exists>room db'.
         create Some ''r4'' 20 example_db
           \<lparr>RoomCreateRequest.id_roomtype = ''t1'', RoomCreateRequest.status = ''available''\<rparr>
           = (Inr (RoomCreateResponse room), db')
         \<and> rooms db' = rooms example_db @ [room]
         \<and> Room.id_roomtype room = ''t1''
         \<and> \<not> Room.deleted room)
   \<and> (\<exists>room db'.
         update Some 20 example_db ''r3''
           \<lparr>RoomUpdateRequest.id_roomtype = Some ''t1'', RoomUpdateRequest.status = None\<rparr>
           = (Inr (RoomCreateResponse room), db')
         \<and> room \<in> set (rooms db')
         \<and> id_room room = ''r3''
         \<and> Room.id_roomtype room = ''t1'')"
proof -
  have s: "roomType_soft_deleted example_db ''t1''"
    by (simp add: roomType_soft_deleted_def example_db_def)
  have f: "fresh_room_id example_db ''r4''"
    by (simp add: fresh_room_id_def example_db_def)
  have l: "\<not> room_missing example_db ''r3''"
    by (simp add: room_missing_def example_db_def)
  show ?thesis
    using s f l
      soft_deleted_roomType_accepted [where db = example_db and k = "''t1''" and i = "''r3''"
        and now = 20 and new_id = "''r4''" and CREATE = Some and UPDATE = Some
        and request = "\<lparr>RoomCreateRequest.id_roomtype = ''t1'',
                        RoomCreateRequest.status = ''available''\<rparr>"
        and req = "\<lparr>RoomCreateRequest.id_roomtype = ''t1'',
                        RoomCreateRequest.status = ''available''\<rparr>"
        and request' = "\<lparr>RoomUpdateRequest.id_roomtype = Some ''t1'',
                         RoomUpdateRequest.status = None\<rparr>"
        and req' = "\<lparr>RoomUpdateRequest.id_roomtype = Some ''t1'',
                         RoomUpdateRequest.status = None\<rparr>"]
    by simp
qed

subsection \<open>Soft deletion\<close>

lemma roomType_findUnique_live:
  "\<not> roomType_missing db i \<Longrightarrow>
     \<exists>t. roomType_findUnique db (Some i) (Some False) = Inr (Some t)
          \<and> RoomType.id_roomtype t = i \<and> \<not> RoomType.deleted t \<and> t \<in> set (roomTypes db)"
proof -
  assume "\<not> roomType_missing db i"
  then have "list_ex (\<lambda>t. RoomType.id_roomtype t = i
                \<and> deleted_matches (Some False) (RoomType.deleted t)) (roomTypes db)"
    by (auto simp: roomType_missing_def deleted_matches_def list_ex_iff list_all_iff)
  from find_list_ex [OF this] show ?thesis
    by (auto simp: roomType_findUnique_def deleted_matches_def)
qed

lemma roomType_update_present:
  assumes "t \<in> set (roomTypes db)" "RoomType.id_roomtype t = i"
  shows "\<exists>old. old \<in> set (roomTypes db) \<and> RoomType.id_roomtype old = i
           \<and> roomType_update now db i data
             = (Inr (roomType_apply data now old),
                db\<lparr>roomTypes :=
                     map (\<lambda>t. if RoomType.id_roomtype t = i then roomType_apply data now t else t)
                       (roomTypes db)\<rparr>)"
proof -
  from assms have "list_ex (\<lambda>t. RoomType.id_roomtype t = i) (roomTypes db)"
    by (auto simp: list_ex_iff)
  from find_list_ex [OF this] show ?thesis
    by (auto simp: roomType_update_def)
qed

lemma room_apply_delete:
  "room_apply \<lparr>RoomUpdateInput.id_roomtype = None, RoomUpdateInput.status = None,
               RoomUpdateInput.deleted = Some True\<rparr> now r
     = r\<lparr>Room.deleted := True, Room.updated_at := now\<rparr>"
  by (simp add: room_apply_def or_else_def)

lemma roomType_apply_delete:
  "roomType_apply \<lparr>RoomTypeUpdateInput.room_type = None, RoomTypeUpdateInput.price = None,
                   RoomTypeUpdateInput.deleted = Some True\<rparr> now t
     = t\<lparr>RoomType.deleted := True, RoomType.updated_at := now\<rparr>"
  by (simp add: roomType_apply_def or_else_def)

lemma delete_live:
  assumes "\<not> room_missing db i"
  shows "delete now db i
          = (Inr DeleteResponse,
             db\<lparr>rooms := map (\<lambda>r. if id_room r = i
                                  then r\<lparr>Room.deleted := True, Room.updated_at := now\<rparr> else r)
                            (rooms db)\<rparr>)"
proof -
  from room_findUnique_live [OF assms] obtain r where
    r: "room_findUnique db i (Some False) = Some r" "id_room r = i" "r \<in> set (rooms db)"
    by blast
  let ?data = "\<lparr>RoomUpdateInput.id_roomtype = None, RoomUpdateInput.status = None,
                RoomUpdateInput.deleted = Some True\<rparr>"
  from room_update_present [OF r(3) r(2), of now ?data] obtain old where
    "room_update now db i ?data
        = (Inr (room_apply ?data now old),
           db\<lparr>rooms := map (\<lambda>r. if id_room r = i then room_apply ?data now r else r) (rooms db)\<rparr>)"
    by blast
  with r(1) show ?thesis
    by (simp add: delete_def room_apply_delete)
qed

lemma deleteRoomType_live:
  assumes "\<not> roomType_missing db i"
  shows "deleteRoomType now db i
          = (Inr DeleteResponse,
             db\<lparr>roomTypes :=
                  map (\<lambda>t. if RoomType.id_roomtype t = i
                           then t\<lparr>RoomType.deleted := True, RoomType.updated_at := now\<rparr> else t)
                    (roomTypes db)\<rparr>)"
proof -
  from roomType_findUnique_live [OF assms] obtain t where
    t: "roomType_findUnique db (Some i) (Some False) = Inr (Some t)"
      "RoomType.id_roomtype t = i" "t \<in> set (roomTypes db)"
    by blast
  let ?data = "\<lparr>RoomTypeUpdateInput.room_type = None, RoomTypeUpdateInput.price = None,
                RoomTypeUpdateInput.deleted = Some True\<rparr>"
  from roomType_update_present [OF t(3) t(2), of now ?data] obtain old where
    "roomType_update now db i ?data
        = (Inr (roomType_apply ?data now old),
           db\<lparr>roomTypes :=
                map (\<lambda>t. if RoomType.id_roomtype t = i then roomType_apply ?data now t else t)
                  (roomTypes db)\<rparr>)"
    by blast
  with t(1) show ?thesis
    by (simp add: deleteRoomType_def roomType_apply_delete)
qed

lemma room_missing_after_delete:
  "room_missing (snd (delete now db i)) i"
proof (cases "room_missing db i")
  case True
  then show ?thesis by (simp add: delete_missing)
next
  case False
  then show ?thesis
    by (auto simp: delete_live room_missing_def list_all_iff)
qed

lemma roomType_missing_after_delete:
  "roomType_missing (snd (deleteRoomType now db i)) i"
proof (cases "roomType_missing db i")
  case True
  then show ?thesis by (simp add: deleteRoomType_missing)
next
  case False
  then show ?thesis
    by (auto simp: deleteRoomType_live roomType_missing_def list_all_iff)
qed

lemma distinct_key_eq:
  "distinct (map f xs) \<Longrightarrow> x \<in> set xs \<Longrightarrow> y \<in> set xs \<Longrightarrow> f x = f y \<Longrightarrow> x = y"
  by (metis distinct_map inj_on_eq_iff)

lemma deleted_room_missing:
  "primary_keys db \<Longrightarrow> r \<in> set (rooms db) \<Longrightarrow> Room.deleted r \<Longrightarrow> room_missing db (id_room r)"
  unfolding primary_keys_def room_missing_def list_all_iff
  using distinct_key_eq [of id_room "rooms db"] by blast

lemma deleted_roomType_missing:
  "primary_keys db \<Longrightarrow> t \<in> set (roomTypes db) \<Longrightarrow> RoomType.deleted t
     \<Longrightarrow> roomType_missing db (RoomType.id_roomtype t)"
  unfolding primary_keys_def roomType_missing_def list_all_iff
  using distinct_key_eq [of RoomType.id_roomtype "roomTypes db"] by blast

text \<open>
  C5. Deleting what is already soft-deleted does not succeed silently. For a room or a
  room-type row with \<^verbatim>\<open>deleted = true\<close>, the delete of its identifier raises the 404
  and writes nothing; and whatever a first delete of an identifier did, a second delete of
  the same identifier raises the 404 and writes nothing.
\<close>

theorem delete_of_deleted_fails:
  "(primary_keys db \<and> r \<in> set (rooms db) \<and> Room.deleted r \<longrightarrow>
      delete now db (id_room r) = (Inl (HttpException ''Room not found'' 404), db))
   \<and> (primary_keys db \<and> t \<in> set (roomTypes db) \<and> RoomType.deleted t \<longrightarrow>
      deleteRoomType now db (RoomType.id_roomtype t)
        = (Inl (HttpException ''Room Type not found'' 404), db))
   \<and> delete now' (snd (delete now db i)) i
        = (Inl (HttpException ''Room not found'' 404), snd (delete now db i))
   \<and> deleteRoomType now' (snd (deleteRoomType now db i)) i
        = (Inl (HttpException ''Room Type not found'' 404), snd (deleteRoomType now db i))"
proof (intro conjI impI)
  assume "primary_keys db \<and> r \<in> set (rooms db) \<and> Room.deleted r"
  then have "room_missing db (id_room r)"
    using deleted_room_missing by blast
  then show "delete now db (id_room r) = (Inl (HttpException ''Room not found'' 404), db)"
    by (rule delete_missing)
next
  assume "primary_keys db \<and> t \<in> set (roomTypes db) \<and> RoomType.deleted t"
  then have "roomType_missing db (RoomType.id_roomtype t)"
    using deleted_roomType_missing by blast
  then show "deleteRoomType now db (RoomType.id_roomtype t)
        = (Inl (HttpException ''Room Type not found'' 404), db)"
    by (rule deleteRoomType_missing)
next
  show "delete now' (snd (delete now db i)) i
        = (Inl (HttpException ''Room not found'' 404), snd (delete now db i))"
    using room_missing_after_delete by (rule delete_missing)
next
  show "deleteRoomType now' (snd (deleteRoomType now db i)) i
        = (Inl (HttpException ''Room Type not found'' 404), snd (deleteRoomType now db i))"
    using roomType_missing_after_delete by (rule deleteRoomType_missing)
qed


theorem delete_of_deleted_fails_witness:
  "primary_keys example_db
   \<and> rooms example_db ! 1 \<in> set (rooms example_db) \<and> Room.deleted (rooms example_db ! 1)
   \<and> delete 20 example_db (id_room (rooms example_db ! 1))
       = (Inl (HttpException ''Room not found'' 404), example_db)
   \<and> roomTypes example_db ! 0 \<in> set (roomTypes example_db)
   \<and> RoomType.deleted (roomTypes example_db ! 0)
   \<and> deleteRoomType 20 example_db (RoomType.id_roomtype (roomTypes example_db ! 0))
       = (Inl (HttpException ''Room Type not found'' 404), example_db)
   \<and> fst (delete 20 example_db ''r1'') = Inr DeleteResponse
   \<and> delete 21 (snd (delete 20 example_db ''r1'')) ''r1''
       = (Inl (HttpException ''Room not found'' 404), snd (delete 20 example_db ''r1''))
   \<and> fst (deleteRoomType 20 example_db ''t2'') = Inr DeleteResponse
   \<and> deleteRoomType 21 (snd (deleteRoomType 20 example_db ''t2'')) ''t2''
       = (Inl (HttpException ''Room Type not found'' 404),
          snd (deleteRoomType 20 example_db ''t2''))"
proof -
  have p: "primary_keys example_db"
    by (simp add: primary_keys_def example_db_def)
  have r: "rooms example_db ! 1 \<in> set (rooms example_db) \<and> Room.deleted (rooms example_db ! 1)"
    by (simp add: example_db_def)
  have t: "roomTypes example_db ! 0 \<in> set (roomTypes example_db)
      \<and> RoomType.deleted (roomTypes example_db ! 0)"
    by (simp add: example_db_def)
  have d: "fst (delete 20 example_db ''r1'') = Inr DeleteResponse"
    by (simp add: delete_live room_missing_def example_db_def)
  have e: "fst (deleteRoomType 20 example_db ''t2'') = Inr DeleteResponse"
    by (simp add: deleteRoomType_live roomType_missing_def example_db_def)
  show ?thesis
    using p r t d e
      delete_of_deleted_fails [where db = example_db and r = "rooms example_db ! 1"
        and t = "roomTypes example_db ! 0" and now = 20 and now' = 21 and i = "''r1''"]
      delete_of_deleted_fails [where db = example_db and r = "rooms example_db ! 1"
        and t = "roomTypes example_db ! 0" and now = 20 and now' = 21 and i = "''t2''"]
    by simp
qed

lemma list_all2_map_self:
  "list_all2 P xs (map f xs) \<longleftrightarrow> (\<forall>x\<in>set xs. P x (f x))"
  by (induction xs) auto

text \<open>
  C9. A successful delete writes \<^verbatim>\<open>{ deleted: true }\<close> to the rows under the given
  identifier and nothing else: the other table is as before, the table written to keeps
  its rows in place, every row under another identifier is unchanged, and a row under the
  given identifier keeps each of its fields but \<^verbatim>\<open>deleted\<close>, now true, and the
  \<^verbatim>\<open>updated_at\<close> the gateway refreshes.
\<close>

theorem delete_writes_only_deleted:
  "(delete now db i = (Inr resp, db') \<longrightarrow>
      roomTypes db' = roomTypes db
    \<and> list_all2 (\<lambda>r r'.
          id_room r' = id_room r
        \<and> Room.id_roomtype r' = Room.id_roomtype r
        \<and> Room.status r' = Room.status r
        \<and> Room.created_at r' = Room.created_at r
        \<and> (id_room r \<noteq> i \<longrightarrow> r' = r)
        \<and> (id_room r = i \<longrightarrow> r' = r\<lparr>Room.deleted := True, Room.updated_at := now\<rparr>))
        (rooms db) (rooms db'))
   \<and> (deleteRoomType now db i = (Inr resp, db') \<longrightarrow>
      rooms db' = rooms db
    \<and> list_all2 (\<lambda>t t'.
          RoomType.id_roomtype t' = RoomType.id_roomtype t
        \<and> RoomType.room_type t' = RoomType.room_type t
        \<and> RoomType.price t' = RoomType.price t
        \<and> RoomType.created_at t' = RoomType.created_at t
        \<and> (RoomType.id_roomtype t \<noteq> i \<longrightarrow> t' = t)
        \<and> (RoomType.id_roomtype t = i \<longrightarrow>
              t' = t\<lparr>RoomType.deleted := True, RoomType.updated_at := now\<rparr>))
        (roomTypes db) (roomTypes db'))"
proof (intro conjI impI)
  assume a: "delete now db i = (Inr resp, db')"
  then have "\<not> room_missing db i"
    using delete_missing [of db i now] by auto
  from delete_live [OF this, of now] a
  have db': "db' = db\<lparr>rooms := map (\<lambda>r. if id_room r = i
                 then r\<lparr>Room.deleted := True, Room.updated_at := now\<rparr> else r) (rooms db)\<rparr>"
    by simp
  show "roomTypes db' = roomTypes db"
    by (simp add: db')
  show "list_all2 (\<lambda>r r'.
          id_room r' = id_room r
        \<and> Room.id_roomtype r' = Room.id_roomtype r
        \<and> Room.status r' = Room.status r
        \<and> Room.created_at r' = Room.created_at r
        \<and> (id_room r \<noteq> i \<longrightarrow> r' = r)
        \<and> (id_room r = i \<longrightarrow> r' = r\<lparr>Room.deleted := True, Room.updated_at := now\<rparr>))
        (rooms db) (rooms db')"
    by (simp add: db' list_all2_map_self)
next
  assume a: "deleteRoomType now db i = (Inr resp, db')"
  then have "\<not> roomType_missing db i"
    using deleteRoomType_missing [of db i now] by auto
  from deleteRoomType_live [OF this, of now] a
  have db': "db' = db\<lparr>roomTypes := map (\<lambda>t. if RoomType.id_roomtype t = i
                 then t\<lparr>RoomType.deleted := True, RoomType.updated_at := now\<rparr> else t)
               (roomTypes db)\<rparr>"
    by simp
  show "rooms db' = rooms db"
    by (simp add: db')
  show "list_all2 (\<lambda>t t'.
          RoomType.id_roomtype t' = RoomType.id_roomtype t
        \<and> RoomType.room_type t' = RoomType.room_type t
        \<and> RoomType.price t' = RoomType.price t
        \<and> RoomType.created_at t' = RoomType.created_at t
        \<and> (RoomType.id_roomtype t \<noteq> i \<longrightarrow> t' = t)
        \<and> (RoomType.id_roomtype t = i \<longrightarrow>
              t' = t\<lparr>RoomType.deleted := True, RoomType.updated_at := now\<rparr>))
        (roomTypes db) (roomTypes db')"
    by (simp add: db' list_all2_map_self)
qed


theorem delete_writes_only_deleted_witness:
  "delete 20 example_db ''r1'' = (Inr DeleteResponse, snd (delete 20 example_db ''r1''))
   \<and> roomTypes (snd (delete 20 example_db ''r1'')) = roomTypes example_db
   \<and> list_all2 (\<lambda>r r'.
          id_room r' = id_room r
        \<and> Room.id_roomtype r' = Room.id_roomtype r
        \<and> Room.status r' = Room.status r
        \<and> Room.created_at r' = Room.created_at r
        \<and> (id_room r \<noteq> ''r1'' \<longrightarrow> r' = r)
        \<and> (id_room r = ''r1'' \<longrightarrow> r' = r\<lparr>Room.deleted := True, Room.updated_at := 20\<rparr>))
        (rooms example_db) (rooms (snd (delete 20 example_db ''r1'')))
   \<and> deleteRoomType 20 example_db ''t2''
       = (Inr DeleteResponse, snd (deleteRoomType 20 example_db ''t2''))
   \<and> rooms (snd (deleteRoomType 20 example_db ''t2'')) = rooms example_db
   \<and> list_all2 (\<lambda>t t'.
          RoomType.id_roomtype t' = RoomType.id_roomtype t
        \<and> RoomType.room_type t' = RoomType.room_type t
        \<and> RoomType.price t' = RoomType.price t
        \<and> RoomType.created_at t' = RoomType.created_at t
        \<and> (RoomType.id_roomtype t \<noteq> ''t2'' \<longrightarrow> t' = t)
        \<and> (RoomType.id_roomtype t = ''t2'' \<longrightarrow>
              t' = t\<lparr>RoomType.deleted := True, RoomType.updated_at := 20\<rparr>))
        (roomTypes example_db) (roomTypes (snd (deleteRoomType 20 example_db ''t2'')))"
proof -
  have d: "delete 20 example_db ''r1'' = (Inr DeleteResponse, snd (delete 20 example_db ''r1''))"
    by (simp add: delete_live room_missing_def example_db_def)
  have e: "deleteRoomType 20 example_db ''t2''
      = (Inr DeleteResponse, snd (deleteRoomType 20 example_db ''t2''))"
    by (simp add: deleteRoomType_live roomType_missing_def example_db_def)
  show ?thesis
    using d e
      delete_writes_only_deleted [where db = example_db and i = "''r1''" and now = 20
        and resp = DeleteResponse and db' = "snd (delete 20 example_db ''r1'')"]
      delete_writes_only_deleted [where db = example_db and i = "''t2''" and now = 20
        and resp = DeleteResponse and db' = "snd (deleteRoomType 20 example_db ''t2'')"]
    by blast
qed

lemma soft_deleted_after_mark:
  "t \<in> set ts \<Longrightarrow> RoomType.id_roomtype t = i \<Longrightarrow>
     list_ex (\<lambda>t. RoomType.id_roomtype t = i \<and> RoomType.deleted t)
       (map (\<lambda>t. if RoomType.id_roomtype t = i
                 then t\<lparr>RoomType.deleted := True, RoomType.updated_at := now\<rparr> else t) ts)"
  by (induction ts) auto

text \<open>
  C10. \<^verbatim>\<open>deleteRoomType\<close> looks at the room-type row alone. It raises the 404 exactly
  when no live room-type row is under the identifier; otherwise it succeeds, whatever
  rooms refer to the room type: the room table is as before, so those rooms now refer to
  a soft-deleted room type.
\<close>

theorem deleteRoomType_ignores_rooms:
  "(fst (deleteRoomType now db i) = Inl (HttpException ''Room Type not found'' 404)
      \<longleftrightarrow> roomType_missing db i)
   \<and> (\<not> roomType_missing db i \<longrightarrow>
        fst (deleteRoomType now db i) = Inr DeleteResponse
      \<and> rooms (snd (deleteRoomType now db i)) = rooms db
      \<and> roomType_soft_deleted (snd (deleteRoomType now db i)) i
      \<and> roomType_missing (snd (deleteRoomType now db i)) i)"
proof (cases "roomType_missing db i")
  case True
  then show ?thesis by (simp add: deleteRoomType_missing)
next
  case False
  then obtain t where "t \<in> set (roomTypes db)" "RoomType.id_roomtype t = i"
    by (auto simp: roomType_missing_def list_all_iff)
  then have "roomType_soft_deleted (snd (deleteRoomType now db i)) i"
    using False soft_deleted_after_mark [of t "roomTypes db" i now]
    by (simp add: deleteRoomType_live roomType_soft_deleted_def)
  with False roomType_missing_after_delete [of now db i] show ?thesis
    by (simp add: deleteRoomType_live)
qed

theorem deleteRoomType_ignores_rooms_witness:
  "\<not> roomType_missing example_db ''t2''
   \<and> rooms example_db ! 2 \<in> set (rooms example_db)
   \<and> Room.id_roomtype (rooms example_db ! 2) = ''t2''
   \<and> \<not> Room.deleted (rooms example_db ! 2)
   \<and> fst (deleteRoomType 20 example_db ''t2'') = Inr DeleteResponse
   \<and> rooms (snd (deleteRoomType 20 example_db ''t2'')) = rooms example_db
   \<and> roomType_soft_deleted (snd (deleteRoomType 20 example_db ''t2'')) ''t2''
   \<and> roomType_missing (snd (deleteRoomType 20 example_db ''t2'')) ''t2''"
proof -
  have m: "\<not> roomType_missing example_db ''t2''"
    by (simp add: roomType_missing_def example_db_def)
  have r: "rooms example_db ! 2 \<in> set (rooms example_db)
      \<and> Room.id_roomtype (rooms example_db ! 2) = ''t2''
      \<and> \<not> Room.deleted (rooms example_db ! 2)"
    by (simp add: example_db_def)
  show ?thesis
    using m r deleteRoomType_ignores_rooms [where db = example_db and i = "''t2''" and now = 20]
    by simp
qed

lemma find_unique_key:
  assumes "distinct (map f xs)" "x \<in> set xs" "P x"
    and same: "\<And>y. y \<in> set xs \<Longrightarrow> P y \<Longrightarrow> f y = f x"
  shows "find P xs = Some x"
  using assms
proof (induction xs)
  case Nil
  then show ?case by simp
next
  case (Cons a xs)
  show ?case
  proof (cases "P a")
    case True
    have "f a = f x"
      using Cons.prems(4) [of a] True by simp
    moreover have "f a \<notin> f ` set xs"
      using Cons.prems(1) by simp
    ultimately have "x \<notin> set xs"
      by (metis imageI)
    with Cons.prems(2) have "a = x" by simp
    with True show ?thesis by simp
  next
    case False
    with Cons.prems(2,3) have x: "x \<in> set xs" by auto
    have "find P xs = Some x"
    proof (rule Cons.IH)
      show "distinct (map f xs)" using Cons.prems(1) by simp
      show "x \<in> set xs" by (rule x)
      show "P x" by (rule Cons.prems(3))
      show "\<And>y. y \<in> set xs \<Longrightarrow> P y \<Longrightarrow> f y = f x"
        using Cons.prems(4) by simp
    qed
    with False show ?thesis by simp
  qed
qed

lemma room_findUnique_row:
  assumes "distinct (map id_room (rooms db))" "r \<in> set (rooms db)" "\<not> Room.deleted r"
  shows "room_findUnique db (id_room r) (Some False) = Some r"
  unfolding room_findUnique_def
  using assms by (intro find_unique_key [where f = id_room]) (simp_all add: deleted_matches_def)

lemma include_after_mark:
  assumes "t \<in> set ts" "RoomType.id_roomtype t = i"
  shows "\<exists>t' t0. find (\<lambda>t. RoomType.id_roomtype t = i)
               (map (\<lambda>t. if RoomType.id_roomtype t = i
                         then t\<lparr>RoomType.deleted := True, RoomType.updated_at := now\<rparr> else t) ts)
             = Some t'
          \<and> t0 \<in> set ts \<and> RoomType.id_roomtype t0 = i
          \<and> t' = t0\<lparr>RoomType.deleted := True, RoomType.updated_at := now\<rparr>"
  using assms
proof (induction ts)
  case Nil
  then show ?case by simp
next
  case (Cons a ts)
  show ?case
  proof (cases "RoomType.id_roomtype a = i")
    case True
    then show ?thesis
      by (intro exI [of _ "a\<lparr>RoomType.deleted := True, RoomType.updated_at := now\<rparr>"]
          exI [of _ a]) simp
  next
    case False
    with Cons.prems have "t \<in> set ts" by auto
    from Cons.IH [OF this Cons.prems(2)] obtain t' t0 where
      "find (\<lambda>t. RoomType.id_roomtype t = i)
         (map (\<lambda>t. if RoomType.id_roomtype t = i
                   then t\<lparr>RoomType.deleted := True, RoomType.updated_at := now\<rparr> else t) ts)
       = Some t'"
      "t0 \<in> set ts" "RoomType.id_roomtype t0 = i"
      "t' = t0\<lparr>RoomType.deleted := True, RoomType.updated_at := now\<rparr>"
      by blast
    with False show ?thesis
      by (intro exI [of _ t'] exI [of _ t0]) simp
  qed
qed

lemma nested_of_marked:
  "field ''roomtype''
     (RoomDetailResponse r (t\<lparr>RoomType.deleted := True, RoomType.updated_at := now\<rparr>))
   = Some (Obj [(''id_roomtype'', Str (RoomType.id_roomtype t)),
                (''price'', Num (RoomType.price t)),
                (''created_at'', Date (RoomType.created_at t)),
                (''updated_at'', Date now)])"
  by (simp add: RoomDetailResponse_def)

lemma room_fields_of_RoomDetailResponse:
  "field ''id_room'' (RoomDetailResponse r t) = Some (Str (id_room r))"
  "field ''id_roomtype'' (RoomDetailResponse r t) = Some (Str (Room.id_roomtype r))"
  "field ''status'' (RoomDetailResponse r t) = Some (Str (Room.status r))"
  "field ''created_at'' (RoomDetailResponse r t) = Some (Date (Room.created_at r))"
  "field ''updated_at'' (RoomDetailResponse r t) = Some (Date (Room.updated_at r))"
  by (simp_all add: RoomDetailResponse_def)

text \<open>
  C3. Once a room type is soft-deleted, \<^verbatim>\<open>findOneRoomType\<close> on its identifier raises
  the 404, while \<^verbatim>\<open>findOne\<close> on a live room that refers to it still succeeds. Its
  response carries the fields of the room and, under \<^verbatim>\<open>roomtype\<close>, the identifier,
  the price and the timestamps of the row the delete wrote to, now soft-deleted: the join
  does not look at the \<^verbatim>\<open>deleted\<close> flag of the room type.
\<close>

theorem room_of_deleted_roomType_still_found:
  "deleteRoomType now db i = (Inr ack, db') \<longrightarrow>
     findOneRoomType db' i = (Inl (HttpException ''Room Type not found'' 404), db')
   \<and> (\<forall>r. primary_keys db \<and> r \<in> set (rooms db') \<and> Room.id_roomtype r = i \<and> \<not> Room.deleted r \<longrightarrow>
         (\<exists>t0 resp.
            t0 \<in> set (roomTypes db) \<and> RoomType.id_roomtype t0 = i
          \<and> t0\<lparr>RoomType.deleted := True, RoomType.updated_at := now\<rparr> \<in> set (roomTypes db')
          \<and> findOne db' (id_room r) = (Inr resp, db')
          \<and> field ''id_room'' resp = Some (Str (id_room r))
          \<and> field ''id_roomtype'' resp = Some (Str i)
          \<and> field ''status'' resp = Some (Str (Room.status r))
          \<and> field ''created_at'' resp = Some (Date (Room.created_at r))
          \<and> field ''updated_at'' resp = Some (Date (Room.updated_at r))
          \<and> field ''roomtype'' resp
              = Some (Obj [(''id_roomtype'', Str i),
                           (''price'', Num (RoomType.price t0)),
                           (''created_at'', Date (RoomType.created_at t0)),
                           (''updated_at'', Date now)])))"
proof (intro impI conjI allI)
  assume a: "deleteRoomType now db i = (Inr ack, db')"
  then have live: "\<not> roomType_missing db i"
    using deleteRoomType_missing [of db i now] by auto
  from deleteRoomType_live [OF this, of now] a
  have db': "db' = db\<lparr>roomTypes := map (\<lambda>t. if RoomType.id_roomtype t = i
                 then t\<lparr>RoomType.deleted := True, RoomType.updated_at := now\<rparr> else t)
               (roomTypes db)\<rparr>"
    by simp
  from a roomType_missing_after_delete [of now db i] have "roomType_missing db' i"
    by simp
  then show "findOneRoomType db' i = (Inl (HttpException ''Room Type not found'' 404), db')"
    by (rule findOneRoomType_missing)
  fix r
  assume b: "primary_keys db \<and> r \<in> set (rooms db') \<and> Room.id_roomtype r = i \<and> \<not> Room.deleted r"
  let ?mark = "\<lambda>t. t\<lparr>RoomType.deleted := True, RoomType.updated_at := now\<rparr>"
  from b have found: "room_findUnique db' (id_room r) (Some False) = Some r"
    by (intro room_findUnique_row) (simp_all add: db' primary_keys_def)
  from live obtain t1 where "t1 \<in> set (roomTypes db)" "RoomType.id_roomtype t1 = i"
    by (auto simp: roomType_missing_def list_all_iff)
  from include_after_mark [OF this, of now] obtain t' t0 where
    f: "find (\<lambda>t. RoomType.id_roomtype t = i)
         (map (\<lambda>t. if RoomType.id_roomtype t = i then ?mark t else t) (roomTypes db)) = Some t'"
    and t0: "t0 \<in> set (roomTypes db)" "RoomType.id_roomtype t0 = i" "t' = ?mark t0"
    by blast
  from b f t0(3) have inc: "include_roomType db' r = Some (?mark t0)"
    by (simp add: include_roomType_def db')
  from found inc have res: "findOne db' (id_room r) = (Inr (RoomDetailResponse r (?mark t0)), db')"
    by (simp add: findOne_def detail_def)
  from t0(1,2) have mem: "?mark t0 \<in> set (roomTypes db')"
    by (simp add: db' image_iff) (rule bexI [of _ t0], simp_all)
  have rt: "Room.id_roomtype r = i" using b by simp
  show "\<exists>t0 resp.
            t0 \<in> set (roomTypes db) \<and> RoomType.id_roomtype t0 = i
          \<and> t0\<lparr>RoomType.deleted := True, RoomType.updated_at := now\<rparr> \<in> set (roomTypes db')
          \<and> findOne db' (id_room r) = (Inr resp, db')
          \<and> field ''id_room'' resp = Some (Str (id_room r))
          \<and> field ''id_roomtype'' resp = Some (Str i)
          \<and> field ''status'' resp = Some (Str (Room.status r))
          \<and> field ''created_at'' resp = Some (Date (Room.created_at r))
          \<and> field ''updated_at'' resp = Some (Date (Room.updated_at r))
          \<and> field ''roomtype'' resp
              = Some (Obj [(''id_roomtype'', Str i),
                           (''price'', Num (RoomType.price t0)),
                           (''created_at'', Date (RoomType.created_at t0)),
                           (''updated_at'', Date now)])"
  proof (intro exI [of _ t0] exI [of _ "RoomDetailResponse r (?mark t0)"] conjI)
    show "t0 \<in> set (roomTypes db)" by (rule t0(1))
    show "RoomType.id_roomtype t0 = i" by (rule t0(2))
    show "?mark t0 \<in> set (roomTypes db')" by (rule mem)
    show "findOne db' (id_room r) = (Inr (RoomDetailResponse r (?mark t0)), db')" by (rule res)
    show "field ''id_room'' (RoomDetailResponse r (?mark t0)) = Some (Str (id_room r))"
      by (rule room_fields_of_RoomDetailResponse)
    show "field ''id_roomtype'' (RoomDetailResponse r (?mark t0)) = Some (Str i)"
      using room_fields_of_RoomDetailResponse(2) [of r "?mark t0"] rt by simp
    show "field ''status'' (RoomDetailResponse r (?mark t0)) = Some (Str (Room.status r))"
      by (rule room_fields_of_RoomDetailResponse)
    show "field ''created_at'' (RoomDetailResponse r (?mark t0)) = Some (Date (Room.created_at r))"
      by (rule room_fields_of_RoomDetailResponse)
    show "field ''updated_at'' (RoomDetailResponse r (?mark t0)) = Some (Date (Room.updated_at r))"
      by (rule room_fields_of_RoomDetailResponse)
    show "field ''roomtype'' (RoomDetailResponse r (?mark t0))
              = Some (Obj [(''id_roomtype'', Str i),
                           (''price'', Num (RoomType.price t0)),
                           (''created_at'', Date (RoomType.created_at t0)),
                           (''updated_at'', Date now)])"
      using nested_of_marked [where r = r and t = t0 and now = now] t0(2) by simp
  qed
qed


theorem room_of_deleted_roomType_still_found_witness:
  "deleteRoomType 20 example_db ''t2''
     = (Inr DeleteResponse, snd (deleteRoomType 20 example_db ''t2''))
   \<and> primary_keys example_db
   \<and> rooms example_db ! 2 \<in> set (rooms (snd (deleteRoomType 20 example_db ''t2'')))
   \<and> Room.id_roomtype (rooms example_db ! 2) = ''t2''
   \<and> \<not> Room.deleted (rooms example_db ! 2)
   \<and> findOneRoomType (snd (deleteRoomType 20 example_db ''t2'')) ''t2''
       = (Inl (HttpException ''Room Type not found'' 404),
          snd (deleteRoomType 20 example_db ''t2''))
   \<and> (\<exists>t0 resp.
          t0 \<in> set (roomTypes example_db) \<and> RoomType.id_roomtype t0 = ''t2''
        \<and> t0\<lparr>RoomType.deleted := True, RoomType.updated_at := 20\<rparr>
            \<in> set (roomTypes (snd (deleteRoomType 20 example_db ''t2'')))
        \<and> findOne (snd (deleteRoomType 20 example_db ''t2'')) (id_room (rooms example_db ! 2))
            = (Inr resp, snd (deleteRoomType 20 example_db ''t2''))
        \<and> field ''id_room'' resp = Some (Str (id_room (rooms example_db ! 2)))
        \<and> field ''id_roomtype'' resp = Some (Str ''t2'')
        \<and> field ''status'' resp = Some (Str (Room.status (rooms example_db ! 2)))
        \<and> field ''created_at'' resp = Some (Date (Room.created_at (rooms example_db ! 2)))
        \<and> field ''updated_at'' resp = Some (Date (Room.updated_at (rooms example_db ! 2)))
        \<and> field ''roomtype'' resp
            = Some (Obj [(''id_roomtype'', Str ''t2''),
                         (''price'', Num (RoomType.price t0)),
                         (''created_at'', Date (RoomType.created_at t0)),
                         (''updated_at'', Date 20)]))
   \<and> findOne (snd (deleteRoomType 20 example_db ''t2'')) ''r3''
       = (Inr (Obj [(''id_room'', Str ''r3''),
                    (''id_roomtype'', Str ''t2''),
                    (''status'', Str ''available''),
                    (''created_at'', Date 13),
                    (''updated_at'', Date 13),
                    (''roomtype'',
                       Obj [(''id_roomtype'', Str ''t2''),
                            (''price'', Num 250),
                            (''created_at'', Date 2),
                            (''updated_at'', Date 20)])]),
          snd (deleteRoomType 20 example_db ''t2''))"
proof -
  have e: "deleteRoomType 20 example_db ''t2''
      = (Inr DeleteResponse, snd (deleteRoomType 20 example_db ''t2''))"
    by (simp add: deleteRoomType_live roomType_missing_def example_db_def)
  have p: "primary_keys example_db"
    by (simp add: primary_keys_def example_db_def)
  have r: "rooms example_db ! 2 \<in> set (rooms (snd (deleteRoomType 20 example_db ''t2'')))
      \<and> Room.id_roomtype (rooms example_db ! 2) = ''t2''
      \<and> \<not> Room.deleted (rooms example_db ! 2)"
    by (simp add: deleteRoomType_live roomType_missing_def example_db_def)
  have v: "findOne (snd (deleteRoomType 20 example_db ''t2'')) ''r3''
       = (Inr (Obj [(''id_room'', Str ''r3''),
                    (''id_roomtype'', Str ''t2''),
                    (''status'', Str ''available''),
                    (''created_at'', Date 13),
                    (''updated_at'', Date 13),
                    (''roomtype'',
                       Obj [(''id_roomtype'', Str ''t2''),
                            (''price'', Num 250),
                            (''created_at'', Date 2),
                            (''updated_at'', Date 20)])]),
          snd (deleteRoomType 20 example_db ''t2''))"
    by (simp add: deleteRoomType_live roomType_missing_def findOne_def room_findUnique_def
        deleted_matches_def detail_def include_roomType_def RoomDetailResponse_def
        example_db_def)
  note th = room_of_deleted_roomType_still_found [where db = example_db and i = "''t2''"
      and now = 20 and ack = DeleteResponse
      and db' = "snd (deleteRoomType 20 example_db ''t2'')", THEN mp, OF e]
  note c1 = th [THEN conjunct1]
  note c2 = th [THEN conjunct2, THEN spec, of "rooms example_db ! 2", THEN mp, OF conjI [OF p r]]
  show ?thesis
    apply (intro conjI)
          apply (rule e)
         apply (rule p)
        apply (rule r [THEN conjunct1])
       apply (rule r [THEN conjunct2, THEN conjunct1])
      apply (rule r [THEN conjunct2, THEN conjunct2])
     apply (rule c1)
    apply (rule c2)
    apply (rule v)
    done
qed

subsection \<open>Listing\<close>

lemma map_throw_Inr:
  "map_throw f xs = Inr ys \<Longrightarrow> list_all2 (\<lambda>x y. f x = Inr y) xs ys"
proof (induction xs arbitrary: ys)
  case Nil
  then show ?case by simp
next
  case (Cons a xs)
  from Cons.prems obtain y ys' where
    "f a = Inr y" "map_throw f xs = Inr ys'" "ys = y # ys'"
    by (auto split: sum.splits)
  with Cons.IH [of ys'] show ?case by simp
qed

lemma map_throw_total:
  "\<forall>x\<in>set xs. \<exists>y. f x = Inr y \<Longrightarrow> \<exists>ys. map_throw f xs = Inr ys"
  by (induction xs) auto

lemma find_Some_mem:
  "find P xs = Some x \<Longrightarrow> x \<in> set xs \<and> P x"
  by (induction xs) (auto split: if_splits)

lemma detail_Inr:
  "detail db r = Inr resp \<Longrightarrow>
     \<exists>t. t \<in> set (roomTypes db) \<and> RoomType.id_roomtype t = Room.id_roomtype r
        \<and> resp = RoomDetailResponse r t"
  by (auto simp: detail_def include_roomType_def split: option.splits dest: find_Some_mem)

lemma detail_resolves:
  "list_ex (\<lambda>t. RoomType.id_roomtype t = Room.id_roomtype r) (roomTypes db)
     \<Longrightarrow> \<exists>resp. detail db r = Inr resp"
  using find_list_ex [of "\<lambda>t. RoomType.id_roomtype t = Room.id_roomtype r" "roomTypes db"]
  by (auto simp: detail_def include_roomType_def)

lemma room_findMany_live:
  "room_findMany db (Some False) = filter (\<lambda>r. \<not> Room.deleted r) (rooms db)"
  by (simp add: room_findMany_def deleted_matches_def)

lemma roomType_findMany_live:
  "roomType_findMany db (Some False) = filter (\<lambda>t. \<not> RoomType.deleted t) (roomTypes db)"
  by (simp add: roomType_findMany_def deleted_matches_def)

text \<open>
  C6. The list methods return exactly the rows with \<^verbatim>\<open>deleted = false\<close>, in the
  order of the table: \<^verbatim>\<open>findAllRoomType\<close> the response of each live room type, and
  \<^verbatim>\<open>findAll\<close>, when it returns, one response per live room, built from that room and
  the room type it refers to; it returns whenever every room refers to a stored room
  type. No element of either list comes from a row with \<^verbatim>\<open>deleted = true\<close>.
\<close>

theorem lists_return_live_rows:
  "findAllRoomType db
     = (Inr (map RoomTypeResponse (filter (\<lambda>t. \<not> RoomType.deleted t) (roomTypes db))), db)
   \<and> (findAll db = (Inr rs, db') \<longrightarrow>
        db' = db
      \<and> list_all2 (\<lambda>r resp. \<exists>t. t \<in> set (roomTypes db)
                        \<and> RoomType.id_roomtype t = Room.id_roomtype r
                        \<and> resp = RoomDetailResponse r t)
          (filter (\<lambda>r. \<not> Room.deleted r) (rooms db)) rs)
   \<and> (references_resolve db \<longrightarrow> (\<exists>rs. findAll db = (Inr rs, db)))"
proof (intro conjI impI)
  show "findAllRoomType db
     = (Inr (map RoomTypeResponse (filter (\<lambda>t. \<not> RoomType.deleted t) (roomTypes db))), db)"
    by (simp add: findAllRoomType_def roomType_findMany_live)
next
  assume a: "findAll db = (Inr rs, db')"
  then show "db' = db"
    by (simp add: findAll_def)
  from a have "map_throw (detail db) (filter (\<lambda>r. \<not> Room.deleted r) (rooms db)) = Inr rs"
    by (auto simp: findAll_def room_findMany_live)
  from map_throw_Inr [OF this]
  show "list_all2 (\<lambda>r resp. \<exists>t. t \<in> set (roomTypes db)
                        \<and> RoomType.id_roomtype t = Room.id_roomtype r
                        \<and> resp = RoomDetailResponse r t)
          (filter (\<lambda>r. \<not> Room.deleted r) (rooms db)) rs"
    by (rule list_all2_mono) (rule detail_Inr)
next
  assume "references_resolve db"
  then have "\<forall>r\<in>set (filter (\<lambda>r. \<not> Room.deleted r) (rooms db)). \<exists>resp. detail db r = Inr resp"
    by (auto simp: references_resolve_def list_all_iff intro: detail_resolves)
  from map_throw_total [OF this] show "\<exists>rs. findAll db = (Inr rs, db)"
    by (simp add: findAll_def room_findMany_live)
qed

theorem lists_return_live_rows_witness:
  "references_resolve example_db
   \<and> findAllRoomType example_db = (Inr [RoomTypeResponse (roomTypes example_db ! 1)], example_db)
   \<and> findAll example_db
       = (Inr [RoomDetailResponse (rooms example_db ! 0) (roomTypes example_db ! 0),
               RoomDetailResponse (rooms example_db ! 2) (roomTypes example_db ! 1)],
          example_db)
   \<and> list_all2 (\<lambda>r resp. \<exists>t. t \<in> set (roomTypes example_db)
                        \<and> RoomType.id_roomtype t = Room.id_roomtype r
                        \<and> resp = RoomDetailResponse r t)
          (filter (\<lambda>r. \<not> Room.deleted r) (rooms example_db))
          [RoomDetailResponse (rooms example_db ! 0) (roomTypes example_db ! 0),
           RoomDetailResponse (rooms example_db ! 2) (roomTypes example_db ! 1)]"
proof -
  have r: "references_resolve example_db"
    by (simp add: references_resolve_def example_db_def)
  have a: "findAll example_db
       = (Inr [RoomDetailResponse (rooms example_db ! 0) (roomTypes example_db ! 0),
               RoomDetailResponse (rooms example_db ! 2) (roomTypes example_db ! 1)],
          example_db)"
    by (simp add: findAll_def room_findMany_live detail_def include_roomType_def example_db_def)
  have t: "filter (\<lambda>t. \<not> RoomType.deleted t) (roomTypes example_db) = [roomTypes example_db ! 1]"
    by (simp add: example_db_def)
  show ?thesis
    using r a
      lists_return_live_rows [where db = example_db and db' = example_db
        and rs = "[RoomDetailResponse (rooms example_db ! 0) (roomTypes example_db ! 0),
                   RoomDetailResponse (rooms example_db ! 2) (roomTypes example_db ! 1)]"]
    unfolding t by simp
qed

subsection \<open>Creation\<close>

lemma createRoomType_succeeds:
  assumes "CREATE request = Some req" and "fresh_roomType_id db new_id"
  shows "createRoomType CREATE new_id now db request
          = (Inr (RoomTypeResponse
                   \<lparr>RoomType.id_roomtype = new_id,
                    RoomType.room_type = RoomTypeCreateRequest.room_type req,
                    RoomType.price = RoomTypeCreateRequest.price req,
                    RoomType.created_at = now, RoomType.updated_at = now,
                    RoomType.deleted = False\<rparr>),
             db\<lparr>roomTypes := roomTypes db @
                  [\<lparr>RoomType.id_roomtype = new_id,
                    RoomType.room_type = RoomTypeCreateRequest.room_type req,
                    RoomType.price = RoomTypeCreateRequest.price req,
                    RoomType.created_at = now, RoomType.updated_at = now,
                    RoomType.deleted = False\<rparr>]\<rparr>)"
proof -
  from assms(2) have "\<not> list_ex (\<lambda>t. RoomType.id_roomtype t = new_id) (roomTypes db)"
    by (auto simp: fresh_roomType_id_def list_ex_iff list_all_iff)
  with assms(1) show ?thesis
    by (simp add: createRoomType_def validate_def roomType_create_def Let_def)
qed

text \<open>
  C7. For a valid create input, the response carries the fields of the row the gateway
  stored, each equal to the stored one, and the stored row has \<^verbatim>\<open>created_at\<close> equal
  to \<^verbatim>\<open>updated_at\<close>. For a room the input is valid when it passes validation and its
  room type is stored; for a room type when it passes validation; the identifier the
  gateway generates is new to the table.
\<close>

theorem create_response_is_stored_row:
  "(CREATE request = Some req \<and> \<not> fresh_roomType_id db (RoomCreateRequest.id_roomtype req)
      \<and> fresh_room_id db new_id \<longrightarrow>
      (\<exists>resp row db'. create CREATE new_id now db request = (Inr resp, db')
         \<and> rooms db' = rooms db @ [row]
         \<and> keys resp = [''id_room'', ''id_roomtype'', ''status'', ''created_at'', ''updated_at'']
         \<and> field ''id_room'' resp = Some (Str (id_room row))
         \<and> field ''id_roomtype'' resp = Some (Str (Room.id_roomtype row))
         \<and> field ''status'' resp = Some (Str (Room.status row))
         \<and> field ''created_at'' resp = Some (Date (Room.created_at row))
         \<and> field ''updated_at'' resp = Some (Date (Room.updated_at row))
         \<and> Room.created_at row = Room.updated_at row))
   \<and> (CREATE' request' = Some req' \<and> fresh_roomType_id db new_id \<longrightarrow>
      (\<exists>resp row db'. createRoomType CREATE' new_id now db request' = (Inr resp, db')
         \<and> roomTypes db' = roomTypes db @ [row]
         \<and> keys resp = [''id_roomtype'', ''room_type'', ''price'', ''created_at'', ''updated_at'']
         \<and> field ''id_roomtype'' resp = Some (Str (RoomType.id_roomtype row))
         \<and> field ''room_type'' resp = Some (Str (RoomType.room_type row))
         \<and> field ''price'' resp = Some (Num (RoomType.price row))
         \<and> field ''created_at'' resp = Some (Date (RoomType.created_at row))
         \<and> field ''updated_at'' resp = Some (Date (RoomType.updated_at row))
         \<and> RoomType.created_at row = RoomType.updated_at row))"
proof (intro conjI impI)
  assume a: "CREATE request = Some req
      \<and> \<not> fresh_roomType_id db (RoomCreateRequest.id_roomtype req) \<and> fresh_room_id db new_id"
  let ?row = "\<lparr>id_room = new_id, Room.id_roomtype = RoomCreateRequest.id_roomtype req,
               Room.status = RoomCreateRequest.status req, Room.created_at = now,
               Room.updated_at = now, Room.deleted = False\<rparr>"
  from a have "create CREATE new_id now db request
      = (Inr (RoomCreateResponse ?row), db\<lparr>rooms := rooms db @ [?row]\<rparr>)"
    by (intro create_succeeds) simp_all
  then show "\<exists>resp row db'. create CREATE new_id now db request = (Inr resp, db')
         \<and> rooms db' = rooms db @ [row]
         \<and> keys resp = [''id_room'', ''id_roomtype'', ''status'', ''created_at'', ''updated_at'']
         \<and> field ''id_room'' resp = Some (Str (id_room row))
         \<and> field ''id_roomtype'' resp = Some (Str (Room.id_roomtype row))
         \<and> field ''status'' resp = Some (Str (Room.status row))
         \<and> field ''created_at'' resp = Some (Date (Room.created_at row))
         \<and> field ''updated_at'' resp = Some (Date (Room.updated_at row))
         \<and> Room.created_at row = Room.updated_at row"
    by (intro exI [of _ "RoomCreateResponse ?row"] exI [of _ ?row]
        exI [of _ "db\<lparr>rooms := rooms db @ [?row]\<rparr>"])
      (simp add: RoomCreateResponse_def)
next
  assume a: "CREATE' request' = Some req' \<and> fresh_roomType_id db new_id"
  let ?row = "\<lparr>RoomType.id_roomtype = new_id,
               RoomType.room_type = RoomTypeCreateRequest.room_type req',
               RoomType.price = RoomTypeCreateRequest.price req',
               RoomType.created_at = now, RoomType.updated_at = now,
               RoomType.deleted = False\<rparr>"
  from a have "createRoomType CREATE' new_id now db request'
      = (Inr (RoomTypeResponse ?row), db\<lparr>roomTypes := roomTypes db @ [?row]\<rparr>)"
    by (intro createRoomType_succeeds) simp_all
  then show "\<exists>resp row db'. createRoomType CREATE' new_id now db request' = (Inr resp, db')
         \<and> roomTypes db' = roomTypes db @ [row]
         \<and> keys resp = [''id_roomtype'', ''room_type'', ''price'', ''created_at'', ''updated_at'']
         \<and> field ''id_roomtype'' resp = Some (Str (RoomType.id_roomtype row))
         \<and> field ''room_type'' resp = Some (Str (RoomType.room_type row))
         \<and> field ''price'' resp = Some (Num (RoomType.price row))
         \<and> field ''created_at'' resp = Some (Date (RoomType.created_at row))
         \<and> field ''updated_at'' resp = Some (Date (RoomType.updated_at row))
         \<and> RoomType.created_at row = RoomType.updated_at row"
    by (intro exI [of _ "RoomTypeResponse ?row"] exI [of _ ?row]
        exI [of _ "db\<lparr>roomTypes := roomTypes db @ [?row]\<rparr>"])
      (simp add: RoomTypeResponse_def)
qed


theorem create_response_is_stored_row_witness:
  "\<not> fresh_roomType_id example_db ''t2'' \<and> fresh_room_id example_db ''r4''
   \<and> fresh_roomType_id example_db ''r4''
   \<and> (\<exists>resp row db'.
         create Some ''r4'' 20 example_db
           \<lparr>RoomCreateRequest.id_roomtype = ''t2'', RoomCreateRequest.status = ''available''\<rparr>
           = (Inr resp, db')
         \<and> rooms db' = rooms example_db @ [row]
         \<and> keys resp = [''id_room'', ''id_roomtype'', ''status'', ''created_at'', ''updated_at'']
         \<and> field ''id_room'' resp = Some (Str (id_room row))
         \<and> field ''id_roomtype'' resp = Some (Str (Room.id_roomtype row))
         \<and> field ''status'' resp = Some (Str (Room.status row))
         \<and> field ''created_at'' resp = Some (Date (Room.created_at row))
         \<and> field ''updated_at'' resp = Some (Date (Room.updated_at row))
         \<and> Room.created_at row = Room.updated_at row)
   \<and> (\<exists>resp row db'.
         createRoomType Some ''r4'' 20 example_db
           \<lparr>RoomTypeCreateRequest.room_type = ''Deluxe'', RoomTypeCreateRequest.price = 100\<rparr>
           = (Inr resp, db')
         \<and> roomTypes db' = roomTypes example_db @ [row]
         \<and> keys resp = [''id_roomtype'', ''room_type'', ''price'', ''created_at'', ''updated_at'']
         \<and> field ''id_roomtype'' resp = Some (Str (RoomType.id_roomtype row))
         \<and> field ''room_type'' resp = Some (Str (RoomType.room_type row))
         \<and> field ''price'' resp = Some (Num (RoomType.price row))
         \<and> field ''created_at'' resp = Some (Date (RoomType.created_at row))
         \<and> field ''updated_at'' resp = Some (Date (RoomType.updated_at row))
         \<and> RoomType.created_at row = RoomType.updated_at row)"
proof -
  have p: "\<not> fresh_roomType_id example_db ''t2''"
    by (simp add: fresh_roomType_id_def example_db_def)
  have f: "fresh_room_id example_db ''r4''"
    by (simp add: fresh_room_id_def example_db_def)
  have g: "fresh_roomType_id example_db ''r4''"
    by (simp add: fresh_roomType_id_def example_db_def)
  show ?thesis
    using p f g
      create_response_is_stored_row [where db = example_db and now = 20 and new_id = "''r4''"
        and CREATE = Some and CREATE' = Some
        and request = "\<lparr>RoomCreateRequest.id_roomtype = ''t2'',
                        RoomCreateRequest.status = ''available''\<rparr>"
        and req = "\<lparr>RoomCreateRequest.id_roomtype = ''t2'',
                        RoomCreateRequest.status = ''available''\<rparr>"
        and request' = "\<lparr>RoomTypeCreateRequest.room_type = ''Deluxe'',
                         RoomTypeCreateRequest.price = 100\<rparr>"
        and req' = "\<lparr>RoomTypeCreateRequest.room_type = ''Deluxe'',
                         RoomTypeCreateRequest.price = 100\<rparr>"]
    by simp
qed

subsection \<open>The keys of the responses\<close>

lemma all_keys_RoomCreateResponse:
  "all_keys (RoomCreateResponse r)
     = [''id_room'', ''id_roomtype'', ''status'', ''created_at'', ''updated_at'']"
  by (simp add: RoomCreateResponse_def)

lemma all_keys_RoomDetailResponse:
  "all_keys (RoomDetailResponse r t)
     = [''id_room'', ''id_roomtype'', ''status'', ''created_at'', ''updated_at'', ''roomtype'',
        ''id_roomtype'', ''price'', ''created_at'', ''updated_at'']"
  by (simp add: RoomDetailResponse_def)

lemma all_keys_RoomTypeResponse:
  "all_keys (RoomTypeResponse t)
     = [''id_roomtype'', ''room_type'', ''price'', ''created_at'', ''updated_at'']"
  by (simp add: RoomTypeResponse_def)

lemma all_keys_DeleteResponse:
  "all_keys DeleteResponse = [''message'']"
  by (simp add: DeleteResponse_def)

lemma roomtype_of_RoomDetailResponse:
  "field ''roomtype'' (RoomDetailResponse r t)
     = Some (Obj [(''id_roomtype'', Str (RoomType.id_roomtype t)),
                  (''price'', Num (RoomType.price t)),
                  (''created_at'', Date (RoomType.created_at t)),
                  (''updated_at'', Date (RoomType.updated_at t))])"
  by (simp add: RoomDetailResponse_def)

text \<open>What each method returns when it returns: one of the four literals.\<close>

lemma detail_returns:
  "detail db r = Inr resp \<Longrightarrow> \<exists>r t. resp = RoomDetailResponse r t"
  using detail_Inr [of db r resp] by blast

lemma create_returns:
  "create CREATE new_id now db request = (Inr resp, db') \<Longrightarrow> \<exists>r. resp = RoomCreateResponse r"
  by (auto simp: create_def room_create_def Let_def
      split: sum.splits option.splits if_splits prod.splits)

lemma update_returns:
  "update UPDATE now db i request = (Inr resp, db') \<Longrightarrow> \<exists>r. resp = RoomCreateResponse r"
  by (auto simp: update_def split: sum.splits option.splits prod.splits)

lemma findOne_returns:
  "findOne db i = (Inr resp, db') \<Longrightarrow> \<exists>r t. resp = RoomDetailResponse r t"
  by (auto simp: findOne_def split: option.splits dest: detail_returns)

lemma findAll_returns:
  "findAll db = (Inr rs, db') \<Longrightarrow> resp \<in> set rs \<Longrightarrow> \<exists>r t. resp = RoomDetailResponse r t"
proof -
  assume a: "findAll db = (Inr rs, db')" and b: "resp \<in> set rs"
  from a have "list_all2 (\<lambda>r resp. detail db r = Inr resp) (room_findMany db (Some False)) rs"
    by (auto simp: findAll_def intro: map_throw_Inr)
  with b obtain r where "detail db r = Inr resp"
    by (auto simp: list_all2_conv_all_nth in_set_conv_nth)
  then show ?thesis
    by (rule detail_returns)
qed

lemma delete_returns:
  "delete now db i = (Inr resp, db') \<Longrightarrow> resp = DeleteResponse"
  by (auto simp: delete_def split: sum.splits option.splits prod.splits)

lemma createRoomType_returns:
  "createRoomType CREATE new_id now db request = (Inr resp, db')
     \<Longrightarrow> \<exists>t. resp = RoomTypeResponse t"
  by (auto simp: createRoomType_def split: sum.splits prod.splits)

lemma findAllRoomType_returns:
  "findAllRoomType db = (Inr rs, db') \<Longrightarrow> resp \<in> set rs \<Longrightarrow> \<exists>t. resp = RoomTypeResponse t"
  by (auto simp: findAllRoomType_def)

lemma findOneRoomType_returns:
  "findOneRoomType db i = (Inr resp, db') \<Longrightarrow> \<exists>t. resp = RoomTypeResponse t"
  by (auto simp: findOneRoomType_def split: sum.splits option.splits)

lemma updateRoomType_returns:
  "updateRoomType UPDATE now db i request = (Inr resp, db') \<Longrightarrow> \<exists>t. resp = RoomTypeResponse t"
  by (auto simp: updateRoomType_def Let_def split: sum.splits prod.splits if_splits)

lemma deleteRoomType_returns:
  "deleteRoomType now db i = (Inr resp, db') \<Longrightarrow> resp = DeleteResponse"
  by (auto simp: deleteRoomType_def split: sum.splits option.splits prod.splits)

text \<open>
  C8. The responses of \<^verbatim>\<open>findAll\<close> and \<^verbatim>\<open>findOne\<close> nest under \<^verbatim>\<open>roomtype\<close>
  a view of the room type with exactly the keys \<^verbatim>\<open>id_roomtype\<close>, \<^verbatim>\<open>price\<close>,
  \<^verbatim>\<open>created_at\<close> and \<^verbatim>\<open>updated_at\<close>, so without the name \<^verbatim>\<open>room_type\<close>; and
  no response of any of the ten methods has a key \<^verbatim>\<open>deleted\<close>, at any depth.
\<close>

theorem responses_trimmed_without_deleted:
  "(\<forall>resp db'. findOne db i = (Inr resp, db') \<longrightarrow>
      (\<exists>v. field ''roomtype'' resp = Some v
         \<and> keys v = [''id_roomtype'', ''price'', ''created_at'', ''updated_at'']
         \<and> ''room_type'' \<notin> set (keys v)))
   \<and> (\<forall>rs db' resp. findAll db = (Inr rs, db') \<and> resp \<in> set rs \<longrightarrow>
      (\<exists>v. field ''roomtype'' resp = Some v
         \<and> keys v = [''id_roomtype'', ''price'', ''created_at'', ''updated_at'']
         \<and> ''room_type'' \<notin> set (keys v)))
   \<and> (\<forall>resp db'. create RoomValidation_CREATE new_id now db request_c = (Inr resp, db') \<longrightarrow>
         ''deleted'' \<notin> set (all_keys resp))
   \<and> (\<forall>rs db' resp. findAll db = (Inr rs, db') \<and> resp \<in> set rs \<longrightarrow>
         ''deleted'' \<notin> set (all_keys resp))
   \<and> (\<forall>resp db'. findOne db i = (Inr resp, db') \<longrightarrow> ''deleted'' \<notin> set (all_keys resp))
   \<and> (\<forall>resp db'. update RoomValidation_UPDATE now db i request_u = (Inr resp, db') \<longrightarrow>
         ''deleted'' \<notin> set (all_keys resp))
   \<and> (\<forall>resp db'. delete now db i = (Inr resp, db') \<longrightarrow> ''deleted'' \<notin> set (all_keys resp))
   \<and> (\<forall>resp db'. createRoomType RoomtypeValidation_CREATE new_id now db request_tc = (Inr resp, db')
         \<longrightarrow> ''deleted'' \<notin> set (all_keys resp))
   \<and> (\<forall>rs db' resp. findAllRoomType db = (Inr rs, db') \<and> resp \<in> set rs \<longrightarrow>
         ''deleted'' \<notin> set (all_keys resp))
   \<and> (\<forall>resp db'. findOneRoomType db i = (Inr resp, db') \<longrightarrow>
         ''deleted'' \<notin> set (all_keys resp))
   \<and> (\<forall>resp db'. updateRoomType RoomtypeValidation_UPDATE now db i request_tu = (Inr resp, db')
         \<longrightarrow> ''deleted'' \<notin> set (all_keys resp))
   \<and> (\<forall>resp db'. deleteRoomType now db i = (Inr resp, db') \<longrightarrow>
         ''deleted'' \<notin> set (all_keys resp))"
proof -
  have nested: "\<exists>v. field ''roomtype'' (RoomDetailResponse r t) = Some v
         \<and> keys v = [''id_roomtype'', ''price'', ''created_at'', ''updated_at'']
         \<and> ''room_type'' \<notin> set (keys v)" for r t
    by (simp add: roomtype_of_RoomDetailResponse)
  have flat: "''deleted'' \<notin> set (all_keys (RoomCreateResponse r))" for r
    by (simp add: all_keys_RoomCreateResponse)
  have deep: "''deleted'' \<notin> set (all_keys (RoomDetailResponse r t))" for r t
    by (simp add: all_keys_RoomDetailResponse)
  have type: "''deleted'' \<notin> set (all_keys (RoomTypeResponse t))" for t
    by (simp add: all_keys_RoomTypeResponse)
  have ack: "''deleted'' \<notin> set (all_keys DeleteResponse)"
    by (simp add: all_keys_DeleteResponse)
  show ?thesis
  proof (intro conjI allI impI)
    fix resp db'
    assume "findOne db i = (Inr resp, db')"
    then obtain r t where "resp = RoomDetailResponse r t"
      using findOne_returns by blast
    then show "\<exists>v. field ''roomtype'' resp = Some v
         \<and> keys v = [''id_roomtype'', ''price'', ''created_at'', ''updated_at'']
         \<and> ''room_type'' \<notin> set (keys v)"
      and "''deleted'' \<notin> set (all_keys resp)"
      using nested deep by simp_all
  next
    fix rs db' resp
    assume "findAll db = (Inr rs, db') \<and> resp \<in> set rs"
    then obtain r t where "resp = RoomDetailResponse r t"
      using findAll_returns by blast
    then show "\<exists>v. field ''roomtype'' resp = Some v
         \<and> keys v = [''id_roomtype'', ''price'', ''created_at'', ''updated_at'']
         \<and> ''room_type'' \<notin> set (keys v)"
      and "''deleted'' \<notin> set (all_keys resp)"
      using nested deep by simp_all
  next
    fix resp db'
    assume a: "create RoomValidation_CREATE new_id now db request_c = (Inr resp, db')"
    from create_returns [OF a] show "''deleted'' \<notin> set (all_keys resp)"
      using flat by auto
  next
    fix resp db'
    assume a: "update RoomValidation_UPDATE now db i request_u = (Inr resp, db')"
    from update_returns [OF a] show "''deleted'' \<notin> set (all_keys resp)"
      using flat by auto
  next
    fix resp db'
    assume a: "delete now db i = (Inr resp, db')"
    from delete_returns [OF a] show "''deleted'' \<notin> set (all_keys resp)"
      using ack by auto
  next
    fix resp db'
    assume a: "createRoomType RoomtypeValidation_CREATE new_id now db request_tc = (Inr resp, db')"
    from createRoomType_returns [OF a] show "''deleted'' \<notin> set (all_keys resp)"
      using type by auto
  next
    fix rs db' resp
    assume a: "findAllRoomType db = (Inr rs, db') \<and> resp \<in> set rs"
    from findAllRoomType_returns [OF conjunct1 [OF a] conjunct2 [OF a]]
    show "''deleted'' \<notin> set (all_keys resp)"
      using type by auto
  next
    fix resp db'
    assume a: "findOneRoomType db i = (Inr resp, db')"
    from findOneRoomType_returns [OF a] show "''deleted'' \<notin> set (all_keys resp)"
      using type by auto
  next
    fix resp db'
    assume a: "updateRoomType RoomtypeValidation_UPDATE now db i request_tu = (Inr resp, db')"
    from updateRoomType_returns [OF a] show "''deleted'' \<notin> set (all_keys resp)"
      using type by auto
  next
    fix resp db'
    assume a: "deleteRoomType now db i = (Inr resp, db')"
    from deleteRoomType_returns [OF a] show "''deleted'' \<notin> set (all_keys resp)"
      using ack by auto
  qed
qed


theorem responses_trimmed_without_deleted_witness:
  "(\<exists>resp db'. findOne example_db ''r1'' = (Inr resp, db')
      \<and> (\<exists>v. field ''roomtype'' resp = Some v
            \<and> keys v = [''id_roomtype'', ''price'', ''created_at'', ''updated_at'']
            \<and> ''room_type'' \<notin> set (keys v))
      \<and> ''deleted'' \<notin> set (all_keys resp))
   \<and> (\<exists>resp rs db'. findAll example_db = (Inr (resp # rs), db')
      \<and> (\<exists>v. field ''roomtype'' resp = Some v
            \<and> keys v = [''id_roomtype'', ''price'', ''created_at'', ''updated_at'']
            \<and> ''room_type'' \<notin> set (keys v))
      \<and> ''deleted'' \<notin> set (all_keys resp))
   \<and> (\<exists>resp db'.
         create Some ''r4'' 20 example_db
           \<lparr>RoomCreateRequest.id_roomtype = ''t2'', RoomCreateRequest.status = ''available''\<rparr>
           = (Inr resp, db')
       \<and> ''deleted'' \<notin> set (all_keys resp))
   \<and> (\<exists>resp db'.
         update Some 20 example_db ''r1''
           \<lparr>RoomUpdateRequest.id_roomtype = Some ''t2'', RoomUpdateRequest.status = None\<rparr>
           = (Inr resp, db')
       \<and> ''deleted'' \<notin> set (all_keys resp))
   \<and> (\<exists>resp db'. delete 20 example_db ''r1'' = (Inr resp, db')
       \<and> ''deleted'' \<notin> set (all_keys resp))
   \<and> (\<exists>resp db'.
         createRoomType Some ''t3'' 20 example_db
           \<lparr>RoomTypeCreateRequest.room_type = ''Deluxe'', RoomTypeCreateRequest.price = 100\<rparr>
           = (Inr resp, db')
       \<and> ''deleted'' \<notin> set (all_keys resp))
   \<and> (\<exists>resp rs db'. findAllRoomType example_db = (Inr (resp # rs), db')
       \<and> ''deleted'' \<notin> set (all_keys resp))
   \<and> (\<exists>resp db'. findOneRoomType example_db ''t2'' = (Inr resp, db')
       \<and> ''deleted'' \<notin> set (all_keys resp))
   \<and> (\<exists>resp db'.
         updateRoomType Some 20 example_db ''t2''
           \<lparr>RoomTypeUpdateRequest.room_type = None, RoomTypeUpdateRequest.price = Some 300\<rparr>
           = (Inr resp, db')
       \<and> ''deleted'' \<notin> set (all_keys resp))
   \<and> (\<exists>resp db'. deleteRoomType 20 example_db ''t2'' = (Inr resp, db')
       \<and> ''deleted'' \<notin> set (all_keys resp))"
proof -
  note th = responses_trimmed_without_deleted [where db = example_db and now = 20
      and RoomValidation_CREATE = Some and RoomValidation_UPDATE = Some
      and RoomtypeValidation_CREATE = Some and RoomtypeValidation_UPDATE = Some
      and request_c = "\<lparr>RoomCreateRequest.id_roomtype = ''t2'',
                       RoomCreateRequest.status = ''available''\<rparr>"
      and request_u = "\<lparr>RoomUpdateRequest.id_roomtype = Some ''t2'',
                       RoomUpdateRequest.status = None\<rparr>"
      and request_tc = "\<lparr>RoomTypeCreateRequest.room_type = ''Deluxe'',
                       RoomTypeCreateRequest.price = 100\<rparr>"
      and request_tu = "\<lparr>RoomTypeUpdateRequest.room_type = None,
                       RoomTypeUpdateRequest.price = Some 300\<rparr>"]
  have 1: "\<exists>resp db'. findOne example_db ''r1'' = (Inr resp, db')"
    by (simp add: findOne_def room_findUnique_def deleted_matches_def detail_def
        include_roomType_def example_db_def)
  have 2: "\<exists>resp rs db'. findAll example_db = (Inr (resp # rs), db')"
    by (simp add: findAll_def room_findMany_live detail_def include_roomType_def example_db_def)
  have 3: "\<exists>resp db'.
         create Some ''r4'' 20 example_db
           \<lparr>RoomCreateRequest.id_roomtype = ''t2'', RoomCreateRequest.status = ''available''\<rparr>
           = (Inr resp, db')"
    by (simp add: create_succeeds fresh_roomType_id_def fresh_room_id_def example_db_def)
  have 4: "\<exists>resp db'.
         update Some 20 example_db ''r1''
           \<lparr>RoomUpdateRequest.id_roomtype = Some ''t2'', RoomUpdateRequest.status = None\<rparr>
           = (Inr resp, db')"
    by (simp add: update_def validate_def roomType_findUnique_def room_findUnique_def
        room_update_def deleted_matches_def example_db_def)
  have 5: "\<exists>resp db'. delete 20 example_db ''r1'' = (Inr resp, db')"
    by (simp add: delete_live room_missing_def example_db_def)
  have 6: "\<exists>resp db'.
         createRoomType Some ''t3'' 20 example_db
           \<lparr>RoomTypeCreateRequest.room_type = ''Deluxe'', RoomTypeCreateRequest.price = 100\<rparr>
           = (Inr resp, db')"
    by (simp add: createRoomType_succeeds fresh_roomType_id_def example_db_def)
  have 7: "\<exists>resp rs db'. findAllRoomType example_db = (Inr (resp # rs), db')"
    by (simp add: findAllRoomType_def roomType_findMany_live example_db_def)
  have 8: "\<exists>resp db'. findOneRoomType example_db ''t2'' = (Inr resp, db')"
    by (simp add: findOneRoomType_def roomType_findUnique_def deleted_matches_def example_db_def)
  have 9: "\<exists>resp db'.
         updateRoomType Some 20 example_db ''t2''
           \<lparr>RoomTypeUpdateRequest.room_type = None, RoomTypeUpdateRequest.price = Some 300\<rparr>
           = (Inr resp, db')"
    by (simp add: updateRoomType_def validate_def roomType_count_def roomType_update_def
        deleted_matches_def example_db_def)
  have 10: "\<exists>resp db'. deleteRoomType 20 example_db ''t2'' = (Inr resp, db')"
    by (simp add: deleteRoomType_live roomType_missing_def example_db_def)
  note c = th [where i = "''r1''" and new_id = "''r4''"]
  note t = th [where i = "''t2''" and new_id = "''t3''"]
  note c1 = c [THEN conjunct1, rule_format]
  note c2 = c [THEN conjunct2, THEN conjunct1, rule_format]
  note c3 = c [THEN conjunct2, THEN conjunct2, THEN conjunct1, rule_format]
  note c4 = c [THEN conjunct2, THEN conjunct2, THEN conjunct2, THEN conjunct1, rule_format]
  note c5 = c [THEN conjunct2, THEN conjunct2, THEN conjunct2, THEN conjunct2, THEN conjunct1,
      rule_format]
  note c6 = c [THEN conjunct2, THEN conjunct2, THEN conjunct2, THEN conjunct2, THEN conjunct2,
      THEN conjunct1, rule_format]
  note c7 = c [THEN conjunct2, THEN conjunct2, THEN conjunct2, THEN conjunct2, THEN conjunct2,
      THEN conjunct2, THEN conjunct1, rule_format]
  note t8 = t [THEN conjunct2, THEN conjunct2, THEN conjunct2, THEN conjunct2, THEN conjunct2,
      THEN conjunct2, THEN conjunct2, THEN conjunct1, rule_format]
  note t9 = t [THEN conjunct2, THEN conjunct2, THEN conjunct2, THEN conjunct2, THEN conjunct2,
      THEN conjunct2, THEN conjunct2, THEN conjunct2, THEN conjunct1, rule_format]
  note t10 = t [THEN conjunct2, THEN conjunct2, THEN conjunct2, THEN conjunct2, THEN conjunct2,
      THEN conjunct2, THEN conjunct2, THEN conjunct2, THEN conjunct2, THEN conjunct1, rule_format]
  note t11 = t [THEN conjunct2, THEN conjunct2, THEN conjunct2, THEN conjunct2, THEN conjunct2,
      THEN conjunct2, THEN conjunct2, THEN conjunct2, THEN conjunct2, THEN conjunct2,
      THEN conjunct1, rule_format]
  note t12 = t [THEN conjunct2, THEN conjunct2, THEN conjunct2, THEN conjunct2, THEN conjunct2,
      THEN conjunct2, THEN conjunct2, THEN conjunct2, THEN conjunct2, THEN conjunct2,
      THEN conjunct2, rule_format]
  show ?thesis
  proof (intro conjI)
    from 1 obtain resp db' where e: "findOne example_db ''r1'' = (Inr resp, db')"
      by (elim exE)
    from e c1 [OF e] c5 [OF e]
    show "\<exists>resp db'. findOne example_db ''r1'' = (Inr resp, db')
      \<and> (\<exists>v. field ''roomtype'' resp = Some v
            \<and> keys v = [''id_roomtype'', ''price'', ''created_at'', ''updated_at'']
            \<and> ''room_type'' \<notin> set (keys v))
      \<and> ''deleted'' \<notin> set (all_keys resp)"
      by blast
  next
    from 2 obtain resp rs db' where e: "findAll example_db = (Inr (resp # rs), db')"
      by (elim exE)
    have m: "findAll example_db = (Inr (resp # rs), db') \<and> resp \<in> set (resp # rs)"
      using e by simp
    from e c2 [OF m] c4 [OF m]
    show "\<exists>resp rs db'. findAll example_db = (Inr (resp # rs), db')
      \<and> (\<exists>v. field ''roomtype'' resp = Some v
            \<and> keys v = [''id_roomtype'', ''price'', ''created_at'', ''updated_at'']
            \<and> ''room_type'' \<notin> set (keys v))
      \<and> ''deleted'' \<notin> set (all_keys resp)"
      by blast
  next
    from 3 obtain resp db' where e: "create Some ''r4'' 20 example_db
           \<lparr>RoomCreateRequest.id_roomtype = ''t2'', RoomCreateRequest.status = ''available''\<rparr>
           = (Inr resp, db')"
      by (elim exE)
    from e c3 [OF e]
    show "\<exists>resp db'.
         create Some ''r4'' 20 example_db
           \<lparr>RoomCreateRequest.id_roomtype = ''t2'', RoomCreateRequest.status = ''available''\<rparr>
           = (Inr resp, db')
       \<and> ''deleted'' \<notin> set (all_keys resp)"
      by blast
  next
    from 4 obtain resp db' where e: "update Some 20 example_db ''r1''
           \<lparr>RoomUpdateRequest.id_roomtype = Some ''t2'', RoomUpdateRequest.status = None\<rparr>
           = (Inr resp, db')"
      by (elim exE)
    from e c6 [OF e]
    show "\<exists>resp db'.
         update Some 20 example_db ''r1''
           \<lparr>RoomUpdateRequest.id_roomtype = Some ''t2'', RoomUpdateRequest.status = None\<rparr>
           = (Inr resp, db')
       \<and> ''deleted'' \<notin> set (all_keys resp)"
      by blast
  next
    from 5 obtain resp db' where e: "delete 20 example_db ''r1'' = (Inr resp, db')"
      by (elim exE)
    from e c7 [OF e]
    show "\<exists>resp db'. delete 20 example_db ''r1'' = (Inr resp, db')
       \<and> ''deleted'' \<notin> set (all_keys resp)"
      by blast
  next
    from 6 obtain resp db' where e: "createRoomType Some ''t3'' 20 example_db
           \<lparr>RoomTypeCreateRequest.room_type = ''Deluxe'', RoomTypeCreateRequest.price = 100\<rparr>
           = (Inr resp, db')"
      by (elim exE)
    from e t8 [OF e]
    show "\<exists>resp db'.
         createRoomType Some ''t3'' 20 example_db
           \<lparr>RoomTypeCreateRequest.room_type = ''Deluxe'', RoomTypeCreateRequest.price = 100\<rparr>
           = (Inr resp, db')
       \<and> ''deleted'' \<notin> set (all_keys resp)"
      by blast
  next
    from 7 obtain resp rs db' where e: "findAllRoomType example_db = (Inr (resp # rs), db')"
      by (elim exE)
    have m: "findAllRoomType example_db = (Inr (resp # rs), db') \<and> resp \<in> set (resp # rs)"
      using e by simp
    from e t9 [OF m]
    show "\<exists>resp rs db'. findAllRoomType example_db = (Inr (resp # rs), db')
       \<and> ''deleted'' \<notin> set (all_keys resp)"
      by blast
  next
    from 8 obtain resp db' where e: "findOneRoomType example_db ''t2'' = (Inr resp, db')"
      by (elim exE)
    from e t10 [OF e]
    show "\<exists>resp db'. findOneRoomType example_db ''t2'' = (Inr resp, db')
       \<and> ''deleted'' \<notin> set (all_keys resp)"
      by blast
  next
    from 9 obtain resp db' where e: "updateRoomType Some 20 example_db ''t2''
           \<lparr>RoomTypeUpdateRequest.room_type = None, RoomTypeUpdateRequest.price = Some 300\<rparr>
           = (Inr resp, db')"
      by (elim exE)
    from e t11 [OF e]
    show "\<exists>resp db'.
         updateRoomType Some 20 example_db ''t2''
           \<lparr>RoomTypeUpdateRequest.room_type = None, RoomTypeUpdateRequest.price = Some 300\<rparr>
           = (Inr resp, db')
       \<and> ''deleted'' \<notin> set (all_keys resp)"
      by blast
  next
    from 10 obtain resp db' where e: "deleteRoomType 20 example_db ''t2'' = (Inr resp, db')"
      by (elim exE)
    from e t12 [OF e]
    show "\<exists>resp db'. deleteRoomType 20 example_db ''t2'' = (Inr resp, db')
       \<and> ''deleted'' \<notin> set (all_keys resp)"
      by blast
  qed
qed

subsection \<open>What the methods keep true of the tables\<close>

lemma room_update_tables:
  "snd (room_update now db i data) = db
   \<or> snd (room_update now db i data)
       = db\<lparr>rooms := map (\<lambda>r. if id_room r = i then room_apply data now r else r) (rooms db)\<rparr>"
  by (simp add: room_update_def split: option.splits)

lemma roomType_update_tables:
  "snd (roomType_update now db i data) = db
   \<or> snd (roomType_update now db i data)
       = db\<lparr>roomTypes :=
              map (\<lambda>t. if RoomType.id_roomtype t = i then roomType_apply data now t else t)
                (roomTypes db)\<rparr>"
  by (simp add: roomType_update_def split: option.splits)

lemma room_apply_id: "id_room (room_apply data now r) = id_room r"
  by (simp add: room_apply_def)

lemma roomType_apply_id: "RoomType.id_roomtype (roomType_apply data now t) = RoomType.id_roomtype t"
  by (simp add: roomType_apply_def)

lemma map_room_apply_ids:
  "map id_room (map (\<lambda>r. if id_room r = i then room_apply data now r else r) rs) = map id_room rs"
  by (induction rs) (simp_all add: room_apply_id)

lemma map_roomType_apply_ids:
  "map RoomType.id_roomtype
     (map (\<lambda>t. if RoomType.id_roomtype t = i then roomType_apply data now t else t) ts)
   = map RoomType.id_roomtype ts"
  by (induction ts) (simp_all add: roomType_apply_id)

lemma primary_keys_room_update:
  "primary_keys db \<Longrightarrow> primary_keys (snd (room_update now db i data))"
  using room_update_tables [of now db i data]
  by (auto simp: primary_keys_def map_room_apply_ids simp del: map_map)

lemma primary_keys_roomType_update:
  "primary_keys db \<Longrightarrow> primary_keys (snd (roomType_update now db i data))"
  using roomType_update_tables [of now db i data]
  by (auto simp: primary_keys_def map_roomType_apply_ids simp del: map_map)

lemma primary_keys_room_create:
  "primary_keys db \<Longrightarrow> primary_keys (snd (room_create new_id now db rt st))"
  by (auto simp: primary_keys_def room_create_def Let_def list_ex_iff)

lemma primary_keys_roomType_create:
  "primary_keys db \<Longrightarrow> primary_keys (snd (roomType_create new_id now db data))"
  by (auto simp: primary_keys_def roomType_create_def Let_def list_ex_iff)

lemma create_tables:
  "snd (create CREATE new_id now db request) = db
   \<or> (\<exists>req. CREATE request = Some req
         \<and> \<not> fresh_roomType_id db (RoomCreateRequest.id_roomtype req)
         \<and> snd (create CREATE new_id now db request)
            = snd (room_create new_id now db (RoomCreateRequest.id_roomtype req)
                     (RoomCreateRequest.status req)))"
  by (auto simp: create_def validate_def roomType_findUnique_def fresh_roomType_id_def
      find_None_iff list_all_iff split: option.splits sum.splits prod.splits
      dest: find_Some_mem)

lemma update_tables:
  "snd (update UPDATE now db i request) = db
   \<or> (\<exists>req. UPDATE request = Some req
         \<and> (\<forall>k. RoomUpdateRequest.id_roomtype req = Some k \<longrightarrow> \<not> fresh_roomType_id db k)
         \<and> snd (update UPDATE now db i request)
            = snd (room_update now db i
                     \<lparr>RoomUpdateInput.id_roomtype = RoomUpdateRequest.id_roomtype req,
                      RoomUpdateInput.status = RoomUpdateRequest.status req,
                      RoomUpdateInput.deleted = None\<rparr>))"
  by (auto simp: update_def validate_def roomType_findUnique_def fresh_roomType_id_def
      find_None_iff list_all_iff split: option.splits sum.splits prod.splits
      dest: find_Some_mem)

lemma delete_tables:
  "snd (delete now db i) = db
   \<or> snd (delete now db i)
       = snd (room_update now db i
                \<lparr>RoomUpdateInput.id_roomtype = None, RoomUpdateInput.status = None,
                 RoomUpdateInput.deleted = Some True\<rparr>)"
  by (auto simp: delete_def split: option.splits sum.splits prod.splits)

lemma createRoomType_tables:
  "snd (createRoomType CREATE new_id now db request) = db
   \<or> (\<exists>req. CREATE request = Some req
         \<and> snd (createRoomType CREATE new_id now db request)
            = snd (roomType_create new_id now db req))"
  by (auto simp: createRoomType_def validate_def split: option.splits sum.splits prod.splits)

lemma updateRoomType_tables:
  "snd (updateRoomType UPDATE now db i request) = db
   \<or> (\<exists>req. UPDATE request = Some req
         \<and> snd (updateRoomType UPDATE now db i request)
            = snd (roomType_update now db i
                     \<lparr>RoomTypeUpdateInput.room_type = RoomTypeUpdateRequest.room_type req,
                      RoomTypeUpdateInput.price = RoomTypeUpdateRequest.price req,
                      RoomTypeUpdateInput.deleted = None\<rparr>))"
  by (auto simp: updateRoomType_def validate_def Let_def
      split: option.splits sum.splits prod.splits)

lemma deleteRoomType_tables:
  "snd (deleteRoomType now db i) = db
   \<or> snd (deleteRoomType now db i)
       = snd (roomType_update now db i
                \<lparr>RoomTypeUpdateInput.room_type = None, RoomTypeUpdateInput.price = None,
                 RoomTypeUpdateInput.deleted = Some True\<rparr>)"
  by (auto simp: deleteRoomType_def split: option.splits sum.splits prod.splits)

lemma reads_keep_tables:
  "snd (findAll db) = db" "snd (findOne db i) = db"
  "snd (findAllRoomType db) = db" "snd (findOneRoomType db i) = db"
  by (simp_all add: findAll_def findOne_def findAllRoomType_def findOneRoomType_def
      split: option.splits sum.splits)

text \<open>The primary keys hold after every method of the service.\<close>

lemma primary_keys_kept:
  assumes "primary_keys db"
  shows "primary_keys (snd (create CREATE new_id now db request_c))"
    and "primary_keys (snd (update UPDATE now db i request_u))"
    and "primary_keys (snd (delete now db i))"
    and "primary_keys (snd (createRoomType CREATE' new_id now db request_tc))"
    and "primary_keys (snd (updateRoomType UPDATE' now db i request_tu))"
    and "primary_keys (snd (deleteRoomType now db i))"
proof -
  show "primary_keys (snd (create CREATE new_id now db request_c))"
    using create_tables [of CREATE new_id now db request_c] assms
    by (auto simp: primary_keys_room_create)
  show "primary_keys (snd (update UPDATE now db i request_u))"
    using update_tables [of UPDATE now db i request_u] assms
    by (auto simp: primary_keys_room_update)
  show "primary_keys (snd (delete now db i))"
    using delete_tables [of now db i] assms
    by (auto simp: primary_keys_room_update)
  show "primary_keys (snd (createRoomType CREATE' new_id now db request_tc))"
    using createRoomType_tables [of CREATE' new_id now db request_tc] assms
    by (auto simp: primary_keys_roomType_create)
  show "primary_keys (snd (updateRoomType UPDATE' now db i request_tu))"
    using updateRoomType_tables [of UPDATE' now db i request_tu] assms
    by (auto simp: primary_keys_roomType_update)
  show "primary_keys (snd (deleteRoomType now db i))"
    using deleteRoomType_tables [of now db i] assms
    by (auto simp: primary_keys_roomType_update)
qed


lemma references_room_create:
  "references_resolve db \<Longrightarrow> \<not> fresh_roomType_id db rt
     \<Longrightarrow> references_resolve (snd (room_create new_id now db rt st))"
  by (auto simp: references_resolve_def room_create_def Let_def fresh_roomType_id_def
      list_all_iff list_ex_iff)

lemma references_room_update:
  assumes "references_resolve db"
    and "\<And>k. RoomUpdateInput.id_roomtype data = Some k \<Longrightarrow> \<not> fresh_roomType_id db k"
  shows "references_resolve (snd (room_update now db i data))"
proof -
  have "list_ex (\<lambda>t. RoomType.id_roomtype t = Room.id_roomtype (room_apply data now r))
          (roomTypes db)"
    if "r \<in> set (rooms db)" for r
  proof (cases "RoomUpdateInput.id_roomtype data")
    case None
    with that assms(1) show ?thesis
      by (simp add: room_apply_def or_else_def references_resolve_def list_all_iff)
  next
    case (Some k)
    with assms(2) [of k] show ?thesis
      by (auto simp: room_apply_def or_else_def fresh_roomType_id_def list_all_iff list_ex_iff)
  qed
  with assms(1) room_update_tables [of now db i data] show ?thesis
    by (auto simp: references_resolve_def list_all_iff)
qed

lemma references_roomType_create:
  "references_resolve db \<Longrightarrow> references_resolve (snd (roomType_create new_id now db data))"
  by (auto simp: references_resolve_def roomType_create_def Let_def list_all_iff list_ex_iff)

lemma list_ex_roomType_apply:
  "list_ex (\<lambda>t. RoomType.id_roomtype t = k)
     (map (\<lambda>t. if RoomType.id_roomtype t = i then roomType_apply data now t else t) ts)
   \<longleftrightarrow> list_ex (\<lambda>t. RoomType.id_roomtype t = k) ts"
  by (induction ts) (simp_all add: roomType_apply_id)

lemma references_roomType_update:
  "references_resolve db \<Longrightarrow> references_resolve (snd (roomType_update now db i data))"
  using roomType_update_tables [of now db i data]
  by (auto simp: references_resolve_def list_ex_roomType_apply)

text \<open>Every room refers to a stored room type after every method of the service.\<close>

lemma references_kept:
  assumes "references_resolve db"
  shows "references_resolve (snd (create CREATE new_id now db request_c))"
    and "references_resolve (snd (update UPDATE now db i request_u))"
    and "references_resolve (snd (delete now db i))"
    and "references_resolve (snd (createRoomType CREATE' new_id now db request_tc))"
    and "references_resolve (snd (updateRoomType UPDATE' now db i request_tu))"
    and "references_resolve (snd (deleteRoomType now db i))"
proof -
  show "references_resolve (snd (create CREATE new_id now db request_c))"
    using create_tables [of CREATE new_id now db request_c] assms
    by (auto simp: references_room_create)
  show "references_resolve (snd (update UPDATE now db i request_u))"
    using update_tables [of UPDATE now db i request_u] assms
    by (auto intro!: references_room_update)
  show "references_resolve (snd (delete now db i))"
    using delete_tables [of now db i] assms
    by (auto intro!: references_room_update)
  show "references_resolve (snd (createRoomType CREATE' new_id now db request_tc))"
    using createRoomType_tables [of CREATE' new_id now db request_tc] assms
    by (auto simp: references_roomType_create)
  show "references_resolve (snd (updateRoomType UPDATE' now db i request_tu))"
    using updateRoomType_tables [of UPDATE' now db i request_tu] assms
    by (auto simp: references_roomType_update)
  show "references_resolve (snd (deleteRoomType now db i))"
    using deleteRoomType_tables [of now db i] assms
    by (auto simp: references_roomType_update)
qed

end
